theory Spec2Isabelle
  imports Complex_Main "HOL-Library.Sublist"
begin

section \<open>Python values used by the XWiki connector\<close>

text \<open>
  Strings are lists of 8-bit characters; the connector's strings are read as ASCII
  (case folding and white space beyond ASCII are outside the model). An exception is
  a value: its class and the text that \<^verbatim>\<open>str(exc)\<close> gives.
\<close>

datatype exc_class =
    ConnectorMissingCredentialError
  | XWikiAuthenticationError
  | XWikiUnexpectedResponse
  | IndexError
  | TypeError
  | AttributeError
  | ValueError
  | OverflowError
  | ExternalError

datatype error = Raise exc_class string

fun exc_str :: "error \<Rightarrow> string" where
  "exc_str (Raise k msg) = msg"

fun exc_kind :: "error \<Rightarrow> exc_class" where
  "exc_kind (Raise k msg) = k"

definition backslash :: char where
  "backslash = CHR 0x5C"

definition dquote :: char where
  "dquote = CHR 0x22"

text \<open>\<^verbatim>\<open>s.replace(c, r)\<close> for a pattern \<open>c\<close> of one character.\<close>

definition replace_chr :: "char \<Rightarrow> string \<Rightarrow> string \<Rightarrow> string" where
  "replace_chr c r s = concat (map (\<lambda>x. if x = c then r else [x]) s)"

text \<open>\<^verbatim>\<open>sep.join(parts)\<close>.\<close>

fun join :: "string \<Rightarrow> string list \<Rightarrow> string" where
  "join sep [] = []"
| "join sep [x] = x"
| "join sep (x # y # ys) = x @ sep @ join sep (y # ys)"

text \<open>\<^verbatim>\<open>s.partition(c)\<close>: the text before the first \<open>c\<close>, the separator found
  (empty when there is none) and the text after it.\<close>

fun partition_chr :: "char \<Rightarrow> string \<Rightarrow> string \<times> string \<times> string" where
  "partition_chr c [] = ([], [], [])"
| "partition_chr c (x # xs) =
     (if x = c then ([], [c], xs)
      else (case partition_chr c xs of (a, s, b) \<Rightarrow> (x # a, s, b)))"

text \<open>\<^verbatim>\<open>s.split()\<close>: the maximal runs of characters that are not white space.\<close>

definition is_space :: "char \<Rightarrow> bool" where
  "is_space c = (c \<in> {CHR 0x09, CHR 0x0A, CHR 0x0B, CHR 0x0C, CHR 0x0D,
                      CHR 0x1C, CHR 0x1D, CHR 0x1E, CHR 0x1F, CHR 0x20})"

fun words_from :: "string \<Rightarrow> string \<Rightarrow> string list" where
  "words_from w [] = (if w = [] then [] else [w])"
| "words_from w (c # cs) =
     (if is_space c then (if w = [] then words_from [] cs else w # words_from [] cs)
      else words_from (w @ [c]) cs)"

definition py_split :: "string \<Rightarrow> string list" where
  "py_split s = words_from [] s"

text \<open>Truth value of an optional string (\<^verbatim>\<open>if root_page:\<close>): neither None nor empty.\<close>

fun truthy_str :: "string option \<Rightarrow> bool" where
  "truthy_str None = False"
| "truthy_str (Some s) = (s \<noteq> [])"

subsection \<open>UTC time stamps\<close>

text \<open>
  \<^verbatim>\<open>datetime.fromtimestamp(ms / 1000, tz=timezone.utc)\<close> raises outside the years
  1 to 9999. Inside, \<^verbatim>\<open>strftime("%Y-%m-%dT%H:%M:%SZ")\<close> prints the civil date of the
  whole second \<open>ms div 1000\<close>; the year is printed with four digits (below the year
  1000 the padding of \<^verbatim>\<open>%Y\<close> depends on the platform).
\<close>

definition datetime_in_range :: "int \<Rightarrow> bool" where
  "datetime_in_range ms = (- 62135596800000 \<le> ms \<and> ms < 253402300800000)"

definition digit :: "int \<Rightarrow> char" where
  "digit d = ''0123456789'' ! nat d"

definition pad2 :: "int \<Rightarrow> string" where
  "pad2 n = [digit (n div 10 mod 10), digit (n mod 10)]"

definition pad4 :: "int \<Rightarrow> string" where
  "pad4 n = pad2 (n div 100) @ pad2 (n mod 100)"

definition civil_from_days :: "int \<Rightarrow> int \<times> int \<times> int" where
  "civil_from_days days =
     (let z = days + 719468;
          era = z div 146097;
          doe = z - era * 146097;
          yoe = (doe - doe div 1460 + doe div 36524 - doe div 146096) div 365;
          y = yoe + era * 400;
          doy = doe - (365 * yoe + yoe div 4 - yoe div 100);
          mp = (5 * doy + 2) div 153;
          d = doy - (153 * mp + 2) div 5 + 1;
          m = (if mp < 10 then mp + 3 else mp - 9)
      in ((if m \<le> 2 then y + 1 else y), m, d))"

definition utc_iso :: "int \<Rightarrow> string" where
  "utc_iso ms =
     (let s = ms div 1000;
          sod = s mod 86400
      in (case civil_from_days (s div 86400) of (y, m, d) \<Rightarrow>
            pad4 y @ ''-'' @ pad2 m @ ''-'' @ pad2 d @ ''T'' @
            pad2 (sod div 3600) @ '':'' @ pad2 (sod mod 3600 div 60) @ '':'' @
            pad2 (sod mod 60) @ ''Z''))"

section \<open>The query builder (onyx\_xwiki.py)\<close>

text \<open>\<^verbatim>\<open>_build_modified_filter\<close>: the inclusive lower bound on the date field.\<close>

definition build_modified_filter :: "int option \<Rightarrow> error + string" where
  "build_modified_filter since_ms =
     (case since_ms of
        None \<Rightarrow> Inr []
      | Some ms \<Rightarrow>
          if datetime_in_range ms then Inr (''date:['' @ utc_iso ms @ '' TO *]'')
          else Inl (Raise ValueError ''year is out of range''))"

text \<open>\<^verbatim>\<open>_esc\<close>: backslashes are doubled first, then every double quote gets a
  backslash in front.\<close>

definition esc :: "string \<Rightarrow> string" where
  "esc val = replace_chr dquote [backslash, dquote]
               (replace_chr backslash [backslash, backslash] val)"

text \<open>\<^verbatim>\<open>_extract_space_from_page_reference\<close>: all three branches of the source are
  kept, though the last two return the same value.\<close>

definition extract_space_from_page_reference :: "string \<Rightarrow> string" where
  "extract_space_from_page_reference page_ref =
     (if suffix ''.WebHome'' page_ref then take (length page_ref - 8) page_ref
      else if CHR ''.'' \<in> set page_ref then page_ref
      else page_ref)"

text \<open>\<^verbatim>\<open>_build_space_filter\<close>. \<^verbatim>\<open>words[-1]\<close> raises IndexError when the space
  holds a blank and nothing but white space.\<close>

definition build_space_filter :: "string \<Rightarrow> bool \<Rightarrow> error + string" where
  "build_space_filter space recursive =
     (if recursive then
        (if CHR '' '' \<in> set space then
           (let words = py_split space;
                required_terms = join '' '' (map (\<lambda>word. ''+'' @ word) (butlast words))
            in if words = [] then Inl (Raise IndexError ''list index out of range'')
               else (let last_word_wildcard = ''+'' @ last words @ ''*''
                     in Inr (''space:('' @ required_terms @ '' '' @ last_word_wildcard @ '')'')))
         else Inr (''space:('' @ space @ ''*)''))
      else Inr (''space:'' @ [dquote] @ esc space @ [dquote]))"

text \<open>The tag term of \<^verbatim>\<open>_build_solr_query\<close>.\<close>

definition tag_filter :: "string \<Rightarrow> string" where
  "tag_filter tag = ''(property.XWiki.TagClass.tags:'' @ [dquote] @ esc tag @ [dquote] @ '')''"

definition base_terms :: "string list" where
  "base_terms = [''type:('' @ [dquote] @ ''DOCUMENT'' @ [dquote] @ '')'', ''hidden:false'']"

text \<open>
  \<^verbatim>\<open>_build_solr_query\<close> up to its last statement: the list \<^verbatim>\<open>queryTerms\<close> and the
  dictionary \<^verbatim>\<open>extra_params\<close> (an association list) as they are when the query is
  joined.
\<close>

definition solr_query_terms ::
  "string option \<Rightarrow> string option \<Rightarrow> bool \<Rightarrow> int option
     \<Rightarrow> error + (string list \<times> (string \<times> string) list)" where
  "solr_query_terms root_page tag index_recursively since_ms =
     (let queryTerms = base_terms;
          extra_params = [];
          scoped =
            (if truthy_str root_page then
               (case partition_chr CHR '':'' (the root_page) of
                  (wiki_prefix, separator, page_ref) \<Rightarrow>
                    (let (extra, space) =
                           (if separator \<noteq> [] then
                              (extra_params @ [(''wiki'', wiki_prefix)],
                               extract_space_from_page_reference page_ref)
                            else (extra_params,
                                  extract_space_from_page_reference (the root_page)))
                     in (case build_space_filter space index_recursively of
                           Inl e \<Rightarrow> Inl e
                         | Inr f \<Rightarrow> Inr (queryTerms @ [f], extra))))
             else if truthy_str tag then Inr (queryTerms @ [tag_filter (the tag)], extra_params)
             else Inr (queryTerms, extra_params))
      in (case scoped of
            Inl e \<Rightarrow> Inl e
          | Inr (terms, extra) \<Rightarrow>
              (if since_ms \<noteq> None then
                 (case build_modified_filter since_ms of
                    Inl e \<Rightarrow> Inl e
                  | Inr f \<Rightarrow> Inr (terms @ [f], extra))
               else Inr (terms, extra))))"

definition build_solr_query ::
  "string option \<Rightarrow> string option \<Rightarrow> bool \<Rightarrow> int option
     \<Rightarrow> error + (string \<times> (string \<times> string) list)" where
  "build_solr_query root_page tag index_recursively since_ms =
     (case solr_query_terms root_page tag index_recursively since_ms of
        Inl e \<Rightarrow> Inl e
      | Inr (queryTerms, extra_params) \<Rightarrow>
          Inr (join '' AND '' (map (\<lambda>t. ''('' @ t @ '')'') (filter (\<lambda>t. t \<noteq> []) queryTerms)),
               extra_params))"

section \<open>The HTTP gateway (onyx\_xwiki.py)\<close>

text \<open>Decimal numerals, as \<^verbatim>\<open>str(n)\<close> and the f-strings print them.\<close>

fun dec_nat :: "nat \<Rightarrow> string" where
  "dec_nat n = (if n < 10 then [digit (int n)] else dec_nat (n div 10) @ [digit (int (n mod 10))])"

declare dec_nat.simps [simp del]

definition show_int :: "int \<Rightarrow> string" where
  "show_int i = (if i < 0 then ''-'' @ dec_nat (nat (- i)) else dec_nat (nat i))"

text \<open>JSON values as \<^verbatim>\<open>response.json()\<close> delivers them: None, bool, int, float, str,
  list and dict (an association list with distinct keys). A float is the rational it
  denotes; the infinities and NaN, which the decoder gives for literals out of range,
  are outside the model.\<close>

datatype json =
    JNull
  | JBool bool
  | JInt int
  | JFloat rat
  | JStr string
  | JArr "json list"
  | JObj "(string \<times> json) list"

fun truthy :: "json \<Rightarrow> bool" where
  "truthy JNull = False"
| "truthy (JBool b) = b"
| "truthy (JInt i) = (i \<noteq> 0)"
| "truthy (JFloat x) = (x \<noteq> 0)"
| "truthy (JStr s) = (s \<noteq> [])"
| "truthy (JArr xs) = (xs \<noteq> [])"
| "truthy (JObj kvs) = (kvs \<noteq> [])"

text \<open>\<^verbatim>\<open>a or b\<close> and \<^verbatim>\<open>d.get(k)\<close>; None is \<open>JNull\<close>.\<close>

definition py_or :: "json \<Rightarrow> json \<Rightarrow> json" where
  "py_or a b = (if truthy a then a else b)"

definition dict_get :: "(string \<times> json) list \<Rightarrow> string \<Rightarrow> json" where
  "dict_get d k = (case map_of d k of None \<Rightarrow> JNull | Some v \<Rightarrow> v)"

definition has_key :: "(string \<times> json) list \<Rightarrow> string \<Rightarrow> bool" where
  "has_key d k = (map_of d k \<noteq> None)"

text \<open>\<^verbatim>\<open>sub in s\<close> on strings.\<close>

fun contains :: "string \<Rightarrow> string \<Rightarrow> bool" where
  "contains sub [] = (sub = [])"
| "contains sub (c # cs) = (prefix sub (c # cs) \<or> contains sub cs)"

record request =
  req_method :: string
  req_url :: string
  req_headers :: "(string \<times> string) list"
  req_params :: "(string \<times> string) list"

text \<open>A response: \<open>body_json\<close> is what \<^verbatim>\<open>response.json()\<close> returns, None when it
  raises.\<close>

record response =
  status_code :: int
  body_text :: string
  body_json :: "json option"
  content_bytes :: string

record XWikiAttachment =
  name :: string
  size_bytes :: "int option"
  mime_type :: "string option"
  download_path :: string
  version :: "string option"
  digest :: "string option"

text \<open>
  \<open>XWikiPage\<close> is a data class, which does not check its fields against their
  annotations: \<open>id\<close>, \<open>full_name\<close>, \<open>page_url\<close> and \<open>modified_ms\<close> hold whatever
  the page detail record gave, None (\<open>JNull\<close>) where the record lacks the key.
\<close>

record XWikiPage =
  page_id :: json
  full_name :: json
  page_url :: json
  modified_ms :: json
  content :: string
  attachments :: "XWikiAttachment list"

text \<open>
  The client. \<open>session\<close> is the authenticated HTTP session: \<open>session c rq n\<close> is the
  outcome of sending \<open>rq\<close> for the \<open>n\<close>-th time, a response or what the transport
  raises. \<open>urljoin\<close>, \<open>py_repr\<close> (\<^verbatim>\<open>str\<close> of a value that is not a string) and
  \<open>attachment_model\<close> (the pydantic validation of \<open>XWikiAttachment\<close>) belong to
  libraries. The results of \<^verbatim>\<open>_fetch_page_data\<close>, \<^verbatim>\<open>_get_page_html\<close> and
  \<^verbatim>\<open>download_attachment\<close>, each a network round trip behind a retry wrapper with the
  wrapper's default settings, are taken as they come: a value or the exception raised.
\<close>

record XWikiClient =
  base_url :: string
  session :: "request \<Rightarrow> nat \<Rightarrow> error + response"
  urljoin :: "string \<Rightarrow> string \<Rightarrow> string"
  py_repr :: "json \<Rightarrow> string"
  attachment_model :: "string \<Rightarrow> json \<Rightarrow> json \<Rightarrow> json \<Rightarrow> json \<Rightarrow> json \<Rightarrow> error + XWikiAttachment"
  fetch_page_data :: "string \<Rightarrow> error + json"
  get_page_html :: "json \<Rightarrow> json \<Rightarrow> error + string"
  download_attachment :: "XWikiAttachment \<Rightarrow> error + string"

definition py_str :: "XWikiClient \<Rightarrow> json \<Rightarrow> string" where
  "py_str c v = (case v of JStr s \<Rightarrow> s | _ \<Rightarrow> py_repr c v)"

definition lstrip_slash :: "string \<Rightarrow> string" where
  "lstrip_slash s = dropWhile (\<lambda>x. x = CHR ''/'') s"

text \<open>The body of \<^verbatim>\<open>_request\<close>, one attempt (\<open>n\<close> counts the attempts of this
  request). \<open>prepared_request\<close> is what it hands to the session; its callers pass
  neither \<^verbatim>\<open>data\<close> nor \<^verbatim>\<open>json\<close>.\<close>

definition prepared_request ::
  "XWikiClient \<Rightarrow> string \<Rightarrow> string \<Rightarrow> (string \<times> string) list
     \<Rightarrow> (string \<times> string) list \<Rightarrow> request" where
  "prepared_request c method url headers params =
     (let request_url =
            (if prefix ''http'' url then url
             else urljoin c (base_url c @ ''/'') (lstrip_slash url))
      in \<lparr>req_method = method, req_url = request_url,
          req_headers = headers, req_params = params\<rparr>)"

definition request_once ::
  "XWikiClient \<Rightarrow> string \<Rightarrow> string \<Rightarrow> (string \<times> string) list
     \<Rightarrow> (string \<times> string) list \<Rightarrow> int list \<Rightarrow> nat \<Rightarrow> error + response" where
  "request_once c method url headers params allow_status n =
     (let rq = prepared_request c method url headers params;
          request_url = req_url rq;
          allow = allow_status
      in (case session c rq n of
            Inl e \<Rightarrow> Inl e
          | Inr response \<Rightarrow>
              if status_code response = 401 then
                Inl (Raise XWikiAuthenticationError (''Authentication failed calling '' @ request_url))
              else if status_code response \<in> set allow
                      \<or> (200 \<le> status_code response \<and> status_code response < 300) then
                Inr response
              else
                Inl (Raise XWikiUnexpectedResponse
                       (''Unexpected status code '' @ show_int (status_code response)
                        @ '' for '' @ method @ '' '' @ request_url @ ''. ''
                        @ ''Body: '' @ take 500 (body_text response)))))"

text \<open>
  Modelled from the spec: \<^verbatim>\<open>retry_builder\<close> of \<^verbatim>\<open>onyx.utils.retry_wrapper\<close>, which
  is not among the sources. The spec (4.2, 5, 7): every network call is guarded by a
  bounded-retry wrapper with a fixed retry count, applied per call; a transient network
  or response failure is retried and, once the retries are exhausted, surfaces at the
  call site; an authentication failure is non-retryable and surfaces immediately.
  \<open>retry_builder tries call\<close> runs \<open>call 0\<close>, \<open>call 1\<close>, ... and returns the outcome
  together with the number of calls made. The waiting between the attempts is not
  modelled.
\<close>

fun retry_loop :: "nat \<Rightarrow> nat \<Rightarrow> (nat \<Rightarrow> error + 'a) \<Rightarrow> (error + 'a) \<times> nat" where
  "retry_loop 0 n call = (call n, Suc n)"
| "retry_loop (Suc k) n call =
     (case call n of
        Inr v \<Rightarrow> (Inr v, Suc n)
      | Inl e \<Rightarrow>
          if exc_kind e = XWikiAuthenticationError then (Inl e, Suc n)
          else retry_loop k (Suc n) call)"

definition retry_builder :: "nat \<Rightarrow> (nat \<Rightarrow> error + 'a) \<Rightarrow> (error + 'a) \<times> nat" where
  "retry_builder tries call = retry_loop (tries - 1) 0 call"

text \<open>\<^verbatim>\<open>_request\<close> as decorated: \<^verbatim>\<open>@retry_builder(tries=3, delay=1, backoff=2,
  max_delay=10)\<close>. The second component is the number of requests sent.\<close>

definition request ::
  "XWikiClient \<Rightarrow> string \<Rightarrow> string \<Rightarrow> (string \<times> string) list
     \<Rightarrow> (string \<times> string) list \<Rightarrow> int list \<Rightarrow> (error + response) \<times> nat" where
  "request c method url headers params allow_status =
     retry_builder 3 (request_once c method url headers params allow_status)"

section \<open>The search gateway (onyx\_xwiki.py)\<close>

text \<open>The loop of \<^verbatim>\<open>_load_page_data\<close> over the links: the first link of relation
  \<open>page\<close> whose target is not a translation.\<close>

fun find_page_link :: "XWikiClient \<Rightarrow> json list \<Rightarrow> string option" where
  "find_page_link c [] = None"
| "find_page_link c (link # rest) =
     (case link of
        JObj l \<Rightarrow>
          (let rel = dict_get l ''rel'';
               href = py_or (dict_get l ''href'') (JStr [])
           in if rel = JStr ''http://www.xwiki.org/rel/page''
                 \<and> \<not> contains ''/translations/'' (py_str c href)
              then Some (py_str c href)
              else find_page_link c rest)
      | _ \<Rightarrow> find_page_link c rest)"

text \<open>\<^verbatim>\<open>_list_attachments\<close>: the entries with a name, in order; the first entry that
  the model class rejects raises.\<close>

fun attachment_entries :: "XWikiClient \<Rightarrow> json list \<Rightarrow> error + XWikiAttachment list" where
  "attachment_entries c [] = Inr []"
| "attachment_entries c (entry # rest) =
     (case entry of
        JObj e \<Rightarrow>
          (let nm = dict_get e ''name'' in
           if \<not> truthy nm then attachment_entries c rest
           else
             (let url = py_or (dict_get e ''xwikiAbsoluteUrl'') (dict_get e ''download'') in
              case attachment_model c (py_str c nm) (dict_get e ''size'')
                     (dict_get e ''mimeType'') url (dict_get e ''version'') (dict_get e ''digest'') of
                Inl x \<Rightarrow> Inl x
              | Inr a \<Rightarrow>
                  (case attachment_entries c rest of
                     Inl x \<Rightarrow> Inl x
                   | Inr as \<Rightarrow> Inr (a # as))))
      | _ \<Rightarrow> attachment_entries c rest)"

definition list_attachments :: "XWikiClient \<Rightarrow> json \<Rightarrow> error + XWikiAttachment list" where
  "list_attachments c data =
     (case data of
        JObj d \<Rightarrow>
          (if d = [] \<or> \<not> has_key d ''attachments'' then Inr []
           else (case dict_get d ''attachments'' of
                   JArr attachments_data \<Rightarrow> attachment_entries c attachments_data
                 | _ \<Rightarrow> Inr []))
      | _ \<Rightarrow> Inr [])"

text \<open>The links of a hit as \<^verbatim>\<open>_load_page_data\<close> normalises them to a list, and its
  test on the language marker: absent, empty and the string \<open>null\<close> are kept.\<close>

definition links_of :: "(string \<times> json) list \<Rightarrow> json list" where
  "links_of document =
     (let links = py_or (py_or (dict_get document ''links'') (dict_get document ''link'')) (JObj []);
          links = (case links of
                     JObj l \<Rightarrow> if has_key l ''link'' then dict_get l ''link'' else links
                   | _ \<Rightarrow> links);
          links = (case links of JObj l \<Rightarrow> JArr [links] | _ \<Rightarrow> links)
      in (case links of JArr xs \<Rightarrow> xs | _ \<Rightarrow> []))"

definition language_kept :: "json \<Rightarrow> bool" where
  "language_kept language = (language = JNull \<or> language = JStr [] \<or> language = JStr ''null'')"

text \<open>
  \<^verbatim>\<open>_load_page_data\<close>. The result is an exception, None or a page; the page is
  built from the fields of the detail record as they are.
\<close>

definition load_page_data :: "XWikiClient \<Rightarrow> json \<Rightarrow> error + XWikiPage option" where
  "load_page_data c document =
     (case document of
        JObj doc \<Rightarrow>
          (let language = dict_get doc ''language'' in
           if \<not> language_kept language then Inr None
           else
             (let page_rest_url = find_page_link c (links_of doc) in
              if page_rest_url = None \<or> page_rest_url = Some [] then Inr None
              else
                (case fetch_page_data c (the page_rest_url) of
                   Inl e \<Rightarrow> Inl e
                 | Inr pageData \<Rightarrow>
                     if \<not> truthy pageData then Inr None
                     else
                       (case pageData of
                          JObj pd \<Rightarrow>
                            (let pid = dict_get pd ''id'';
                                 url = dict_get pd ''xwikiAbsoluteUrl'';
                                 modified = dict_get pd ''modified'';
                                 fname = dict_get pd ''fullName''
                             in (case get_page_html c url fname of
                                   Inl e \<Rightarrow> Inl e
                                 | Inr html \<Rightarrow>
                                     (case list_attachments c (dict_get pd ''attachments'') of
                                        Inl e \<Rightarrow> Inl e
                                      | Inr atts \<Rightarrow>
                                          Inr (Some \<lparr>page_id = pid, full_name = fname,
                                                     page_url = url, modified_ms = modified,
                                                     content = html, attachments = atts\<rparr>))))
                        | _ \<Rightarrow> Inl (Raise AttributeError ''object has no attribute get'')))))
      | _ \<Rightarrow> Inl (Raise AttributeError ''object has no attribute get''))"

text \<open>The loop of \<^verbatim>\<open>query_pages\<close> over the raw hits.\<close>

fun load_pages :: "XWikiClient \<Rightarrow> json list \<Rightarrow> error + XWikiPage list" where
  "load_pages c [] = Inr []"
| "load_pages c (document # rest) =
     (case load_page_data c document of
        Inl e \<Rightarrow> Inl e
      | Inr ref \<Rightarrow>
          (case load_pages c rest of
             Inl e \<Rightarrow> Inl e
           | Inr refs \<Rightarrow> Inr (case ref of None \<Rightarrow> refs | Some p \<Rightarrow> p # refs)))"

definition query_pages ::
  "XWikiClient \<Rightarrow> string option \<Rightarrow> string option \<Rightarrow> string option \<Rightarrow> bool \<Rightarrow> int option
     \<Rightarrow> int \<Rightarrow> int \<Rightarrow> error + (XWikiPage list \<times> nat)" where
  "query_pages c wiki root_page tag index_recursively since_ms start number =
     (case build_solr_query root_page tag index_recursively since_ms of
        Inl e \<Rightarrow> Inl e
      | Inr (query, extra_params) \<Rightarrow>
          (let parameters = [(''type'', ''solr''), (''start'', show_int start),
                             (''number'', show_int number), (''distinct'', ''true''),
                             (''orderField'', ''date''), (''order'', ''asc''), (''q'', query)];
               wiki_to_use = (if truthy_str wiki then wiki else map_of extra_params ''wiki'');
               parameters = (if truthy_str wiki_to_use
                             then parameters @ [(''wikis'', the wiki_to_use)] else parameters)
           in (case fst (request c ''GET'' ''rest/wikis/query''
                           [(''Accept'', ''application/json'')] parameters []) of
                 Inl e \<Rightarrow> Inl e
               | Inr response \<Rightarrow>
                   (case body_json response of
                      None \<Rightarrow> Inl (Raise ValueError ''response body is not JSON'')
                    | Some j \<Rightarrow>
                        (let data = py_or j (JObj []);
                             sr = (case data of JObj d \<Rightarrow> dict_get d ''searchResults'' | _ \<Rightarrow> JNull);
                             data_list = (case sr of JArr xs \<Rightarrow> xs | _ \<Rightarrow> [])
                         in (case load_pages c data_list of
                               Inl e \<Rightarrow> Inl e
                             | Inr refs \<Rightarrow> Inr (refs, length data_list)))))))"

section \<open>The attachment pipeline (utils.py)\<close>

text \<open>\<^verbatim>\<open>s.lower()\<close> on ASCII, and \<^verbatim>\<open>Path(name).suffix\<close> for POSIX paths (as in
  CPython up to 3.12): the last component that is neither empty nor a single dot, from
  its last dot on, unless that dot is its first or last character.\<close>

definition lower_chr :: "char \<Rightarrow> char" where
  "lower_chr c =
     (let n = (of_char c :: nat) in if 65 \<le> n \<and> n \<le> 90 then char_of (n + 32) else c)"

definition py_lower :: "string \<Rightarrow> string" where
  "py_lower s = map lower_chr s"

fun split_chr :: "char \<Rightarrow> string \<Rightarrow> string list" where
  "split_chr c [] = [Nil]"
| "split_chr c (x # xs) =
     (case split_chr c xs of
        [] \<Rightarrow> [x] # []
      | p # ps \<Rightarrow> if x = c then [] # p # ps else (x # p) # ps)"

definition path_name :: "string \<Rightarrow> string" where
  "path_name s =
     (case filter (\<lambda>p. p \<noteq> [] \<and> p \<noteq> ''.'') (split_chr CHR ''/'' s) of
        [] \<Rightarrow> []
      | p # ps \<Rightarrow> last (p # ps))"

definition path_suffix :: "string \<Rightarrow> string" where
  "path_suffix s =
     (let nm = path_name s;
          after = rev (takeWhile (\<lambda>x. x \<noteq> CHR ''.'') (rev nm))
      in if CHR ''.'' \<in> set nm \<and> after \<noteq> [] \<and> length after + 1 < length nm
         then CHR ''.'' # after else [])"

text \<open>The outcome of one attachment: the three optional fields of
  \<open>AttachmentProcessingResult\<close>. The image section is a value of the image store's
  type (\<^verbatim>\<open>Any\<close> in the source).\<close>

record 'img AttachmentProcessingResult =
  res_text :: "string option"
  res_image_section :: "'img option"
  res_error :: "string option"

text \<open>
  Sections and documents with the arguments their constructors are given: the link of
  a text section and the identifier, title and name of a document come from the page
  and may be any value; \<open>doc_updated_at\<close> is the instant in epoch milliseconds.
\<close>

datatype 'img doc_section = TextSection string json | ImageSection 'img

record 'img Document =
  doc_id :: json
  source :: string
  title :: json
  semantic_identifier :: json
  sections :: "'img doc_section list"
  metadata :: "(string \<times> json) list"
  doc_updated_at :: rat

text \<open>
  What the connector takes from the rest of Onyx: the two file-type tests, the text
  extraction, the image store, the two thresholds of the configuration, and the
  validation that the model classes \<open>TextSection\<close> and \<open>Document\<close> apply to the
  arguments of their constructors, which returns the object or raises.
\<close>

record 'img collaborators =
  is_valid_image_type :: "string \<Rightarrow> bool"
  is_accepted_file_ext :: "string \<Rightarrow> bool"
  extract_file_text :: "string \<Rightarrow> string \<Rightarrow> error + string"
  store_image_and_create_section ::
    "string \<Rightarrow> string \<Rightarrow> string \<Rightarrow> string \<Rightarrow> string \<Rightarrow> error + 'img"
  XWIKI_ATTACHMENT_SIZE_THRESHOLD :: int
  XWIKI_ATTACHMENT_CHAR_COUNT_THRESHOLD :: int
  text_section_model :: "string \<Rightarrow> json \<Rightarrow> error + 'img doc_section"
  document_model :: "'img Document \<Rightarrow> error + 'img Document"

definition or_empty :: "string option \<Rightarrow> string" where
  "or_empty v = (case v of None \<Rightarrow> [] | Some s \<Rightarrow> s)"

definition validate_attachment_filetype :: "'img collaborators \<Rightarrow> XWikiAttachment \<Rightarrow> bool" where
  "validate_attachment_filetype env attachment =
     (let media_type = py_lower (or_empty (mime_type attachment)) in
      if prefix ''image/'' media_type then is_valid_image_type env media_type
      else
        (let sfx = path_suffix (name attachment) in
         if sfx = [] then False else is_accepted_file_ext env sfx))"

text \<open>\<^verbatim>\<open>_make_storage_file_id\<close>: only a string has the method \<^verbatim>\<open>replace\<close>.\<close>

definition make_storage_file_id :: "XWikiPage \<Rightarrow> XWikiAttachment \<Rightarrow> error + string" where
  "make_storage_file_id page_ref attachment =
     (case full_name page_ref of
        JStr fname \<Rightarrow>
          (let safe_page = replace_chr CHR ''/'' ''_'' (replace_chr CHR '':'' ''_'' fname);
               safe_name = replace_chr CHR ''/'' ''_'' (replace_chr CHR '':'' ''_'' (name attachment))
           in Inr (''xwiki-'' @ safe_page @ ''-'' @ safe_name))
      | _ \<Rightarrow> Inl (Raise AttributeError ''object has no attribute replace''))"

definition attachment_download_url :: "XWikiClient \<Rightarrow> XWikiAttachment \<Rightarrow> string" where
  "attachment_download_url c attachment =
     (if prefix ''http'' (download_path attachment) then download_path attachment
      else urljoin c (base_url c @ ''/'') (lstrip_slash (download_path attachment)))"

definition error_result :: "string \<Rightarrow> 'img AttachmentProcessingResult" where
  "error_result msg = \<lparr>res_text = None, res_image_section = None, res_error = Some msg\<rparr>"

text \<open>
  \<^verbatim>\<open>process_attachment\<close>. The second component lists the attachments handed to
  \<^verbatim>\<open>client.download_attachment\<close>, in order: the download calls made.
\<close>

definition process_attachment ::
  "'img collaborators \<Rightarrow> XWikiClient \<Rightarrow> XWikiPage \<Rightarrow> XWikiAttachment \<Rightarrow> bool
     \<Rightarrow> 'img AttachmentProcessingResult \<times> XWikiAttachment list" where
  "process_attachment env c page_ref attachment allow_images =
     (let media_type = or_empty (mime_type attachment) in
      if \<not> validate_attachment_filetype env attachment then
        (error_result (''Unsupported file type: ''
                        @ (if media_type \<noteq> [] then media_type else name attachment)), [])
      else
        (let download_url = attachment_download_url c attachment;
             attachment_size = (case size_bytes attachment of None \<Rightarrow> 0 | Some n \<Rightarrow> n);
             gate =
               (if prefix ''image/'' media_type then
                  (if \<not> allow_images then Some ''Image downloading is not enabled'' else None)
                else
                  (if attachment_size \<noteq> 0
                      \<and> attachment_size > XWIKI_ATTACHMENT_SIZE_THRESHOLD env
                   then Some ''Attachment exceeds size limit'' else None))
         in (case gate of
               Some msg \<Rightarrow> (error_result msg, [])
             | None \<Rightarrow>
                 (case download_attachment c attachment of
                    Inl exc \<Rightarrow> (error_result (exc_str exc), [attachment])
                  | Inr raw_bytes \<Rightarrow>
                      if raw_bytes = [] then (error_result ''Attachment content empty'', [attachment])
                      else if prefix ''image/'' media_type then
                        (case make_storage_file_id page_ref attachment of
                           Inl exc \<Rightarrow> (error_result (exc_str exc), [attachment])
                         | Inr file_id \<Rightarrow>
                             (case store_image_and_create_section env raw_bytes file_id
                                     (name attachment) download_url
                                     (if media_type \<noteq> [] then media_type
                                      else ''application/octet-stream'') of
                                Inr sec \<Rightarrow>
                                  (\<lparr>res_text = None, res_image_section = Some sec,
                                    res_error = None\<rparr>, [attachment])
                              | Inl exc \<Rightarrow> (error_result (exc_str exc), [attachment])))
                      else
                        (case extract_file_text env raw_bytes (name attachment) of
                           Inl exc \<Rightarrow> (error_result (exc_str exc), [attachment])
                         | Inr txt \<Rightarrow>
                             if int (length txt) > XWIKI_ATTACHMENT_CHAR_COUNT_THRESHOLD env then
                               (error_result ''Attachment text too long'', [attachment])
                             else
                               (\<lparr>res_text = (if txt \<noteq> [] then Some txt else None),
                                 res_image_section = None, res_error = None\<rparr>,
                                [attachment]))))))"

section \<open>The document assembler and the checkpointed run (connector.py)\<close>

text \<open>
  A number, as Python compares and divides it: an int, a float (read as the rational
  it denotes) or a bool, which is the int 0 or 1. No other JSON value is a number.
\<close>

fun num_val :: "json \<Rightarrow> rat option" where
  "num_val (JInt i) = Some (of_int i)"
| "num_val (JFloat x) = Some x"
| "num_val (JBool b) = Some (if b then 1 else 0)"
| "num_val JNull = None"
| "num_val (JStr s) = None"
| "num_val (JArr xs) = None"
| "num_val (JObj kvs) = None"

text \<open>The loop of \<^verbatim>\<open>process_xwiki_page\<close> over the attachments. A text counts as
  true when it is not empty, an image section whenever there is one. When the
  construction of a text section raises, the handler around the loop ends it and the
  sections appended so far remain.\<close>

fun attachment_sections ::
  "'img collaborators \<Rightarrow> XWikiClient \<Rightarrow> XWikiPage \<Rightarrow> bool \<Rightarrow> XWikiAttachment list
     \<Rightarrow> 'img doc_section list \<Rightarrow> 'img doc_section list" where
  "attachment_sections env c page allow_images [] secs = secs"
| "attachment_sections env c page allow_images (attachment # rest) secs =
     (let result = fst (process_attachment env c page attachment allow_images) in
      case (if truthy_str (res_text result)
            then (case text_section_model env (the (res_text result))
                         (JStr (attachment_download_url c attachment)) of
                    Inl exc \<Rightarrow> Inl exc
                  | Inr sec \<Rightarrow> Inr (secs @ [sec]))
            else Inr secs) of
        Inl exc \<Rightarrow> secs
      | Inr secs \<Rightarrow>
          (let secs = (if res_image_section result \<noteq> None
                       then secs @ [ImageSection (the (res_image_section result))]
                       else secs)
           in attachment_sections env c page allow_images rest secs))"

text \<open>\<^verbatim>\<open>process_xwiki_page\<close>: the first section may be rejected by its model class,
  the division raises TypeError when \<open>modified_ms\<close> is not a number, the conversion
  raises when the instant is out of range, and the model class of the document may
  reject the fields.\<close>

definition process_xwiki_page ::
  "'img collaborators \<Rightarrow> XWikiClient \<Rightarrow> XWikiPage \<Rightarrow> bool \<Rightarrow> error + 'img Document" where
  "process_xwiki_page env c page allow_images =
     (case text_section_model env (content page) (page_url page) of
        Inl exc \<Rightarrow> Inl exc
      | Inr sec \<Rightarrow>
          (let secs = attachment_sections env c page allow_images (attachments page) [sec]
           in (case num_val (modified_ms page) of
                 None \<Rightarrow> Inl (Raise TypeError ''unsupported operand type(s) for /'')
               | Some m \<Rightarrow>
                   if \<not> datetime_in_range \<lfloor>m\<rfloor> then Inl (Raise ValueError ''year is out of range'')
                   else document_model env
                          \<lparr>doc_id = page_id page, source = ''xwiki'', title = full_name page,
                           semantic_identifier = full_name page, sections = secs,
                           metadata = [(''name'', full_name page)], doc_updated_at = m\<rparr>)))"

text \<open>
  \<open>XWikiCheckpoint\<close>. \<open>since_ms\<close> is an int or None in every checkpoint that was
  validated; the connector assigns to it what it found in the pages, so the field
  holds a number, by its value.
\<close>

record XWikiCheckpoint =
  has_more :: bool
  since_ms :: "rat option"
  offset :: int

record XWikiConnector =
  self_base_url :: string
  self_wiki :: "string option"
  self_root_page :: "string option"
  self_index_recursively :: bool
  self_tag :: "string option"
  self_batch_size :: int
  self_client :: "XWikiClient option"
  self_allow_images :: bool

text \<open>
  Checkpoints are objects: a store holds them, and a reference is an index into the
  store. \<^verbatim>\<open>copy.deepcopy\<close> allocates a new object with the same fields; an assignment
  to a field updates the object in place.
\<close>

type_synonym store = "XWikiCheckpoint list"

definition deepcopy :: "store \<Rightarrow> nat \<Rightarrow> store \<times> nat" where
  "deepcopy h r = (h @ [h ! r], length h)"

definition assign :: "store \<Rightarrow> nat \<Rightarrow> (XWikiCheckpoint \<Rightarrow> XWikiCheckpoint) \<Rightarrow> store" where
  "assign h r f = h[r := f (h ! r)]"

subsection \<open>Float arithmetic\<close>

text \<open>
  A Python float is an IEEE 754 binary64 number; a finite one is read as the rational
  it denotes. The result of an arithmetic operation is the exact result rounded to the
  nearest float, ties to the even significand: \<open>round_double\<close>, which is None where
  the rounded result is infinite. \<open>floor_log2 a\<close> is the binary exponent of a positive
  \<open>a\<close>; below the exponent \<open>-1022\<close> the floats are equally spaced.
\<close>

function bit_length :: "int \<Rightarrow> int" where
  "bit_length n = (if n \<le> 0 then 0 else bit_length (n div 2) + 1)"
  by pat_completeness auto

termination
  by (relation "measure nat") auto

declare bit_length.simps [simp del]

definition pow2 :: "int \<Rightarrow> rat" where
  "pow2 k = (if 0 \<le> k then 2 ^ nat k else 1 / 2 ^ nat (- k))"

definition floor_log2 :: "rat \<Rightarrow> int" where
  "floor_log2 a =
     (case quotient_of a of
        (p, q) \<Rightarrow>
          (let k = bit_length p - bit_length q
           in if pow2 k \<le> a then k else k - 1))"

definition round_half_even :: "rat \<Rightarrow> int" where
  "round_half_even y =
     (let f = \<lfloor>y\<rfloor>;
          d = y - of_int f
      in if d < 1 / 2 then f
         else if 1 / 2 < d then f + 1
         else if even f then f else f + 1)"

definition round_double :: "rat \<Rightarrow> rat option" where
  "round_double x =
     (if x = 0 then Some 0
      else
        (let a = \<bar>x\<bar>;
             e = max (floor_log2 a) (- 1022);
             ulp = pow2 (e - 52);
             r = of_int (round_half_even (a / ulp)) * ulp
         in if pow2 1024 \<le> r then None else Some (if x < 0 then - r else r)))"

text \<open>\<^verbatim>\<open>int(x)\<close> of a finite float truncates towards zero.\<close>

definition py_int :: "rat \<Rightarrow> int" where
  "py_int x = (if 0 \<le> x then \<lfloor>x\<rfloor> else \<lceil>x\<rceil>)"

text \<open>\<^verbatim>\<open>int(start * 1000)\<close> for a finite float \<open>start\<close>: the product is a float, and
  \<^verbatim>\<open>int\<close> raises on an infinite one.\<close>

definition start_ms :: "rat \<Rightarrow> error + int" where
  "start_ms start =
     (case round_double (start * 1000) of
        None \<Rightarrow> Inl (Raise OverflowError ''cannot convert float infinity to integer'')
      | Some product \<Rightarrow> Inr (py_int product))"

text \<open>The loop of \<^verbatim>\<open>load_from_checkpoint\<close> over the pages: the documents yielded
  and the final \<^verbatim>\<open>max_modified\<close>. The comparison of \<open>modified_ms\<close> with
  \<^verbatim>\<open>max_modified\<close> stands outside the handler: it raises TypeError when
  \<open>modified_ms\<close> is true and not a number, and that ends the run.\<close>

fun pages_loop ::
  "'img collaborators \<Rightarrow> XWikiClient \<Rightarrow> bool \<Rightarrow> XWikiPage list \<Rightarrow> rat
     \<Rightarrow> error + ('img Document list \<times> rat)" where
  "pages_loop env c allow_images [] max_modified = Inr ([], max_modified)"
| "pages_loop env c allow_images (page # rest) max_modified =
     (case (if truthy (modified_ms page)
            then (case num_val (modified_ms page) of
                    None \<Rightarrow> Inl (Raise TypeError ''> not supported between instances'')
                  | Some m \<Rightarrow> Inr (if m > max_modified then m else max_modified))
            else Inr max_modified) of
        Inl exc \<Rightarrow> Inl exc
      | Inr max_modified \<Rightarrow>
          (case process_xwiki_page env c page allow_images of
             Inr document \<Rightarrow>
               (case pages_loop env c allow_images rest max_modified of
                  Inl exc \<Rightarrow> Inl exc
                | Inr (docs, mm) \<Rightarrow> Inr (document # docs, mm))
           | Inl exc \<Rightarrow> pages_loop env c allow_images rest max_modified))"

text \<open>
  \<^verbatim>\<open>load_from_checkpoint\<close>, run to its end: the exception raised, or the documents
  yielded and the reference returned, together with the store it leaves. \<open>start\<close> and
  \<open>end_time\<close> are finite floats, seconds since the epoch. The query builder receives
  \<open>since_ms\<close>, of which it prints the whole second: the whole part of the number is
  passed on.
\<close>

definition load_from_checkpoint ::
  "'img collaborators \<Rightarrow> XWikiConnector \<Rightarrow> rat \<Rightarrow> rat \<Rightarrow> store \<Rightarrow> nat
     \<Rightarrow> (error + ('img Document list \<times> nat)) \<times> store" where
  "load_from_checkpoint env self start end_time h checkpoint =
     (case self_client self of
        None \<Rightarrow> (Inl (Raise ConnectorMissingCredentialError ''xwiki''), h)
      | Some c \<Rightarrow>
          (case deepcopy h checkpoint of
             (h, cp) \<Rightarrow>
               (case (if since_ms (h ! cp) = None \<and> start \<noteq> 0
                      then (case start_ms start of
                              Inl exc \<Rightarrow> Inl exc
                            | Inr ms \<Rightarrow> Inr (assign h cp (\<lambda>x. x\<lparr>since_ms := Some (of_int ms)\<rparr>)))
                      else Inr h) of
                  Inl exc \<Rightarrow> (Inl exc, h)
                | Inr h \<Rightarrow>
                    (case query_pages c (self_wiki self) (self_root_page self) (self_tag self)
                            (self_index_recursively self) (map_option floor (since_ms (h ! cp)))
                            (offset (h ! cp)) (self_batch_size self) of
                       Inl exc \<Rightarrow> (Inl exc, h)
                     | Inr (pages, raw_count) \<Rightarrow>
                         (let max_modified = (case since_ms (h ! cp) of None \<Rightarrow> 0 | Some s \<Rightarrow> s)
                          in (case pages_loop env c (self_allow_images self) pages max_modified of
                                Inl exc \<Rightarrow> (Inl exc, h)
                              | Inr (docs, max_modified) \<Rightarrow>
                                  (let h = assign h cp (\<lambda>x. x\<lparr>offset := offset x + int raw_count\<rparr>);
                                       h = assign h cp
                                             (\<lambda>x. x\<lparr>has_more := (int raw_count \<ge> self_batch_size self)\<rparr>);
                                       h = (if \<not> has_more (h ! cp) then
                                              (let h = assign h cp (\<lambda>x. x\<lparr>offset := 0\<rparr>)
                                               in if max_modified > 0
                                                  then assign h cp (\<lambda>x. x\<lparr>since_ms := Some max_modified\<rparr>)
                                                  else h)
                                            else h)
                                   in (Inr (docs, cp), h))))))))"

section \<open>Vocabulary of the properties\<close>

text \<open>
  The definitions of this section do not model code: they name what the properties
  below talk about.
\<close>

text \<open>
  A query term is a space filter when it starts as the terms of
  \<^verbatim>\<open>_build_space_filter\<close> do, and a tag filter when it starts as the tag term does.
\<close>

definition is_space_term :: "string \<Rightarrow> bool" where
  "is_space_term t = prefix ''space:'' t"

definition is_tag_term :: "string \<Rightarrow> bool" where
  "is_tag_term t = prefix ''(property.XWiki.TagClass.tags:'' t"

text \<open>
  A response that \<^verbatim>\<open>_request\<close> neither returns nor treats as an authentication
  failure, and the exception raised for it.
\<close>

definition rejected :: "int list \<Rightarrow> response \<Rightarrow> bool" where
  "rejected allow r =
     (status_code r \<noteq> 401 \<and> status_code r \<notin> set allow
      \<and> \<not> (200 \<le> status_code r \<and> status_code r < 300))"

definition unexpected_response :: "string \<Rightarrow> request \<Rightarrow> response \<Rightarrow> error" where
  "unexpected_response method rq r =
     Raise XWikiUnexpectedResponse
       (''Unexpected status code '' @ show_int (status_code r) @ '' for '' @ method @ '' ''
        @ req_url rq @ ''. Body: '' @ take 500 (body_text r))"

text \<open>
  The number of populated fields of an outcome; an error outcome has the error and
  nothing else; an attachment is oversized when its declared size is not zero and
  above the threshold.
\<close>

definition populated :: "'img AttachmentProcessingResult \<Rightarrow> nat" where
  "populated r =
     (if res_text r \<noteq> None then 1 else 0) + (if res_image_section r \<noteq> None then 1 else 0)
     + (if res_error r \<noteq> None then 1 else 0)"

definition oversized :: "'img collaborators \<Rightarrow> XWikiAttachment \<Rightarrow> bool" where
  "oversized env a =
     (case size_bytes a of
        None \<Rightarrow> False
      | Some n \<Rightarrow> n \<noteq> 0 \<and> n > XWIKI_ATTACHMENT_SIZE_THRESHOLD env)"

definition is_error_outcome :: "'img AttachmentProcessingResult \<Rightarrow> bool" where
  "is_error_outcome r = (res_error r \<noteq> None \<and> res_text r = None \<and> res_image_section r = None)"

text \<open>
  A hit without its language marker.
\<close>

definition without_language :: "(string \<times> json) list \<Rightarrow> (string \<times> json) list" where
  "without_language d = filter (\<lambda>kv. fst kv \<noteq> ''language'') d"

text \<open>
  The threshold the query runs with, as lines 112 and 113 of connector.py leave it:
  the incoming \<open>since_ms\<close>, or \<^verbatim>\<open>int(start * 1000)\<close> when the incoming one is None and
  the start time is not zero, unless that conversion raises. \<open>batch_of\<close> is the call of
  \<^verbatim>\<open>query_pages\<close> that \<^verbatim>\<open>load_from_checkpoint\<close> makes with that threshold for an
  incoming checkpoint. The pages of a batch have numeric times when the
  \<open>modified_ms\<close> of each is false or a number, so that its comparison in the loop does
  not raise; \<open>modified_values\<close> are the numbers among them and \<open>loop_max\<close> is the
  \<^verbatim>\<open>max_modified\<close> the loop ends with. \<open>yielded\<close> are the documents of the pages whose
  construction does not raise, and \<open>next_since\<close> is the threshold after a short batch:
  the maximum of the threshold (None counting as 0) and the modification times seen
  when that is positive, the threshold itself otherwise.
\<close>

definition seeded_since :: "rat \<Rightarrow> rat option \<Rightarrow> error + rat option" where
  "seeded_since start since =
     (case since of
        None \<Rightarrow>
          if start \<noteq> 0
          then (case start_ms start of Inl exc \<Rightarrow> Inl exc | Inr ms \<Rightarrow> Inr (Some (of_int ms)))
          else Inr None
      | Some s \<Rightarrow> Inr (Some s))"

definition batch_of ::
  "XWikiConnector \<Rightarrow> XWikiClient \<Rightarrow> rat option \<Rightarrow> XWikiCheckpoint
     \<Rightarrow> error + (XWikiPage list \<times> nat)" where
  "batch_of self c seeded cp0 =
     query_pages c (self_wiki self) (self_root_page self) (self_tag self)
       (self_index_recursively self) (map_option floor seeded) (offset cp0)
       (self_batch_size self)"

definition numeric_times :: "XWikiPage list \<Rightarrow> bool" where
  "numeric_times pages =
     list_all (\<lambda>p. \<not> truthy (modified_ms p) \<or> num_val (modified_ms p) \<noteq> None) pages"

definition modified_values :: "XWikiPage list \<Rightarrow> rat list" where
  "modified_values pages =
     concat (map (\<lambda>p. case num_val (modified_ms p) of None \<Rightarrow> [] | Some m \<Rightarrow> [m]) pages)"

fun loop_max :: "XWikiPage list \<Rightarrow> rat \<Rightarrow> rat" where
  "loop_max [] m = m"
| "loop_max (p # ps) m =
     loop_max ps (case num_val (modified_ms p) of
                    None \<Rightarrow> m
                  | Some v \<Rightarrow> if v \<noteq> 0 \<and> v > m then v else m)"

definition yielded ::
  "'img collaborators \<Rightarrow> XWikiClient \<Rightarrow> bool \<Rightarrow> XWikiPage list \<Rightarrow> 'img Document list" where
  "yielded env c allow pages =
     concat (map (\<lambda>p. case process_xwiki_page env c p allow of Inl e \<Rightarrow> [] | Inr d \<Rightarrow> [d]) pages)"

definition next_since :: "rat option \<Rightarrow> XWikiPage list \<Rightarrow> rat option" where
  "next_since seeded pages =
     (let m = Max (set ((case seeded of None \<Rightarrow> 0 | Some s \<Rightarrow> s) # modified_values pages))
      in if m > 0 then Some m else seeded)"

section \<open>An example wiki\<close>

text \<open>
  A small wiki on which the properties are evaluated: a session that answers every
  search with the same hits and the status code chosen for the attempt, four page
  detail records (the one of \<open>Draft\<close> has no \<open>modified\<close>, the one of \<open>Broken\<close>
  neither \<open>id\<close> nor \<open>xwikiAbsoluteUrl\<close>), and collaborators that accept PNG images
  and \<open>.txt\<close> files, links that are strings or None, and documents whose identifier,
  title and name are strings.
\<close>

definition ex_hit :: "json \<Rightarrow> string \<Rightarrow> json" where
  "ex_hit language href =
     JObj [(''language'', language),
           (''links'', JArr [JObj [(''rel'', JStr ''http://www.xwiki.org/rel/page''),
                                   (''href'', JStr href)]])]"

definition ex_detail :: "string \<Rightarrow> json \<Rightarrow> json" where
  "ex_detail nm modified =
     JObj [(''id'', JStr (''xwiki:'' @ nm)),
           (''xwikiAbsoluteUrl'', JStr (''https://wiki.example/bin/view/'' @ nm)),
           (''modified'', modified),
           (''fullName'', JStr nm)]"

definition always :: "int \<Rightarrow> nat \<Rightarrow> int" where
  "always st n = st"

definition flaky :: "nat \<Rightarrow> int" where
  "flaky n = (if n = 0 then 503 else 200)"

definition ex_client :: "(nat \<Rightarrow> int) \<Rightarrow> json list \<Rightarrow> XWikiClient" where
  "ex_client statuses hits =
     \<lparr>base_url = ''https://wiki.example'',
      session = (\<lambda>rq n. Inr \<lparr>status_code = statuses n, body_text = ''body'',
                              body_json = Some (JObj [(''searchResults'', JArr hits)]),
                              content_bytes = []\<rparr>),
      urljoin = (\<lambda>b u. b @ u),
      py_repr = (\<lambda>v. []),
      attachment_model = (\<lambda>nm sz mime url ver dg. Inl (Raise ValueError ''validation error'')),
      fetch_page_data =
        (\<lambda>url. if url = ''rest/Main'' then Inr (ex_detail ''Main.WebHome'' (JInt 1704067200000))
              else if url = ''rest/Draft'' then Inr (ex_detail ''Draft.WebHome'' JNull)
              else if url = ''rest/News'' then Inr (ex_detail ''News.WebHome'' (JInt 1704067260000))
              else if url = ''rest/Broken''
                then Inr (JObj [(''fullName'', JStr ''Broken.WebHome''),
                                (''modified'', JInt 1704067290000)])
              else Inr (JObj [])),
      get_page_html = (\<lambda>u f. Inr ''text''),
      download_attachment = (\<lambda>a. Inr ''bytes'')\<rparr>"

definition ex_text_section :: "string \<Rightarrow> json \<Rightarrow> error + string doc_section" where
  "ex_text_section t link =
     (case link of
        JNull \<Rightarrow> Inr (TextSection t link)
      | JStr u \<Rightarrow> Inr (TextSection t link)
      | _ \<Rightarrow> Inl (Raise ValueError ''validation error''))"

definition ex_document_model :: "string Document \<Rightarrow> error + string Document" where
  "ex_document_model d =
     (case (doc_id d, title d, semantic_identifier d) of
        (JStr i, JStr t, JStr s) \<Rightarrow> Inr d
      | _ \<Rightarrow> Inl (Raise ValueError ''validation error''))"

definition ex_env :: "string \<Rightarrow> string collaborators" where
  "ex_env extracted =
     \<lparr>is_valid_image_type = (\<lambda>m. m = ''image/png''),
      is_accepted_file_ext = (\<lambda>s. s = ''.txt''),
      extract_file_text = (\<lambda>b n. Inr extracted),
      store_image_and_create_section = (\<lambda>d fid nm link mt. Inr fid),
      XWIKI_ATTACHMENT_SIZE_THRESHOLD = 10485760,
      XWIKI_ATTACHMENT_CHAR_COUNT_THRESHOLD = 200000,
      text_section_model = ex_text_section,
      document_model = ex_document_model\<rparr>"

definition ex_reject :: "string Document \<Rightarrow> error + string Document" where
  "ex_reject d = Inl (Raise ValueError ''rejected'')"

definition ex_attachment :: "string \<Rightarrow> string option \<Rightarrow> int option \<Rightarrow> XWikiAttachment" where
  "ex_attachment nm mime sz =
     \<lparr>name = nm, size_bytes = sz, mime_type = mime, download_path = ''/download/'' @ nm,
      version = None, digest = None\<rparr>"

definition ex_page :: "string \<Rightarrow> int option \<Rightarrow> XWikiPage" where
  "ex_page nm modified =
     \<lparr>page_id = JStr (''xwiki:'' @ nm), full_name = JStr nm,
      page_url = JStr (''https://wiki.example/bin/view/'' @ nm),
      modified_ms = (case modified of None \<Rightarrow> JNull | Some m \<Rightarrow> JInt m),
      content = ''text'', attachments = []\<rparr>"

definition ex_broken_page :: XWikiPage where
  "ex_broken_page =
     \<lparr>page_id = JNull, full_name = JStr ''Broken.WebHome'', page_url = JNull,
      modified_ms = JInt 1704067290000, content = ''text'', attachments = []\<rparr>"

definition ex_document :: "string \<Rightarrow> int \<Rightarrow> string Document" where
  "ex_document nm modified =
     \<lparr>doc_id = JStr (''xwiki:'' @ nm), source = ''xwiki'', title = JStr nm,
      semantic_identifier = JStr nm,
      sections = [TextSection ''text'' (JStr (''https://wiki.example/bin/view/'' @ nm))],
      metadata = [(''name'', JStr nm)], doc_updated_at = of_int modified\<rparr>"

definition ex_connector :: "json list \<Rightarrow> XWikiConnector" where
  "ex_connector hits =
     \<lparr>self_base_url = ''https://wiki.example'', self_wiki = Some ''xwiki'',
      self_root_page = None, self_index_recursively = True, self_tag = None,
      self_batch_size = 16, self_client = Some (ex_client (always 200) hits),
      self_allow_images = False\<rparr>"

definition ex_checkpoint :: XWikiCheckpoint where
  "ex_checkpoint = \<lparr>has_more = True, since_ms = None, offset = 0\<rparr>"

definition ex_hits :: "json list" where
  "ex_hits = [ex_hit (JStr []) ''rest/Main'', ex_hit (JStr ''fr'') ''rest/Main'',
              ex_hit JNull ''rest/Draft'', ex_hit (JStr []) ''rest/News'',
              ex_hit (JStr []) ''rest/Broken'']"

definition ex_pages :: "XWikiPage list" where
  "ex_pages = [ex_page ''Main.WebHome'' (Some 1704067200000), ex_page ''Draft.WebHome'' None,
               ex_page ''News.WebHome'' (Some 1704067260000), ex_broken_page]"

section \<open>Properties of the query builder\<close>

lemma esc_chars:
  "esc s = concat (map (\<lambda>c. if c = backslash then [backslash, backslash]
                              else if c = dquote then [backslash, dquote] else [c]) s)"
  by (induction s) (auto simp: esc_def replace_chr_def backslash_def dquote_def)

lemma space_filter_is_space_term:
  "build_space_filter space r = Inr f \<Longrightarrow> is_space_term f \<and> \<not> is_tag_term f \<and> f \<noteq> []"
  by (auto simp: build_space_filter_def is_space_term_def is_tag_term_def Let_def split: if_splits)

lemma tag_filter_is_tag_term:
  "is_tag_term (tag_filter t) \<and> \<not> is_space_term (tag_filter t) \<and> tag_filter t \<noteq> []"
  by (simp add: tag_filter_def is_space_term_def is_tag_term_def)

lemma modified_filter_no_scope:
  "build_modified_filter (Some ms) = Inr f \<Longrightarrow> \<not> is_space_term f \<and> \<not> is_tag_term f \<and> f \<noteq> []"
  by (auto simp: build_modified_filter_def is_space_term_def is_tag_term_def split: if_splits)

lemma base_terms_no_scope:
  "\<not> list_ex is_space_term base_terms \<and> \<not> list_ex is_tag_term base_terms \<and> [] \<notin> set base_terms"
  by (simp add: base_terms_def is_space_term_def is_tag_term_def)

lemma solr_query_terms_space:
  assumes "solr_query_terms rp tag r since = Inr (terms, extra)"
  shows "list_ex is_space_term terms = truthy_str rp"
  using assms base_terms_no_scope tag_filter_is_tag_term [of "the tag"]
  by (auto simp: solr_query_terms_def Let_def
           split: if_splits prod.splits sum.splits option.splits
           dest: space_filter_is_space_term modified_filter_no_scope)

lemma solr_query_terms_tag:
  assumes "solr_query_terms rp tag r since = Inr (terms, extra)"
  shows "list_ex is_tag_term terms = (\<not> truthy_str rp \<and> truthy_str tag)"
  using assms base_terms_no_scope tag_filter_is_tag_term [of "the tag"]
  by (auto simp: solr_query_terms_def Let_def
           split: if_splits prod.splits sum.splits option.splits
           dest: space_filter_is_space_term modified_filter_no_scope)

lemma solr_query_terms_nonempty:
  assumes "solr_query_terms rp tag r since = Inr (terms, extra)"
  shows "[] \<notin> set terms"
  using assms base_terms_no_scope tag_filter_is_tag_term [of "the tag"]
  by (auto simp: solr_query_terms_def Let_def
           split: if_splits prod.splits sum.splits option.splits
           dest: space_filter_is_space_term modified_filter_no_scope)

lemma solr_query_terms_base:
  assumes "solr_query_terms rp tag r since = Inr (terms, extra)"
  shows "take 2 terms = base_terms"
  using assms
  by (auto simp: solr_query_terms_def Let_def base_terms_def
           split: if_splits prod.splits sum.splits option.splits)

lemma solr_query_terms_unscoped:
  assumes "solr_query_terms rp tag r since = Inr (terms, extra)"
    and "\<not> truthy_str rp" and "\<not> truthy_str tag"
  shows "terms = base_terms @ (case since of None \<Rightarrow> [] | Some ms \<Rightarrow> [''date:['' @ utc_iso ms @ '' TO *]''])"
  using assms
  by (auto simp: solr_query_terms_def Let_def build_modified_filter_def
           split: if_splits prod.splits sum.splits option.splits)

lemma filter_nonempty_id: "[] \<notin> set ts \<Longrightarrow> filter (\<lambda>t. t \<noteq> []) ts = ts"
  by (induction ts) auto

lemma join_base_prefix:
  assumes "take 2 ts = [a, b]"
  shows "prefix (''('' @ a @ '') AND ('' @ b @ '')'') (join '' AND '' (map (\<lambda>t. ''('' @ t @ '')'') ts))"
proof -
  have "ts = [a, b] @ drop 2 ts"
    using append_take_drop_id [of 2 ts] assms by simp
  then obtain rest where ts: "ts = a # b # rest" by simp
  show ?thesis unfolding ts by (cases rest) simp_all
qed

text \<open>
  Claim C6. Whenever \<^verbatim>\<open>_build_solr_query\<close> builds a query, its terms never hold both
  a space filter and a tag filter. With a root page set there is a space filter and no
  tag filter; with only a tag set there is a tag filter and no space filter; with
  neither set there is no scope term at all, the terms being the two base terms and
  the time filter if any. The base terms on type and hidden always come first, in the
  term list and in the query string, which is the terms joined by AND, each in
  parentheses.
\<close>

theorem scope_filters_exclusive:
  assumes "solr_query_terms root_page tag index_recursively since = Inr (terms, extra)"
  shows "\<not> (list_ex is_space_term terms \<and> list_ex is_tag_term terms)
       \<and> (truthy_str root_page \<longrightarrow> list_ex is_space_term terms \<and> \<not> list_ex is_tag_term terms)
       \<and> (\<not> truthy_str root_page \<and> truthy_str tag \<longrightarrow>
            list_ex is_tag_term terms \<and> \<not> list_ex is_space_term terms)
       \<and> (\<not> truthy_str root_page \<and> \<not> truthy_str tag \<longrightarrow>
            \<not> list_ex is_space_term terms \<and> \<not> list_ex is_tag_term terms
            \<and> terms = base_terms @ (case since of None \<Rightarrow> []
                                     | Some ms \<Rightarrow> [''date:['' @ utc_iso ms @ '' TO *]'']))
       \<and> take 2 terms = base_terms
       \<and> build_solr_query root_page tag index_recursively since =
           Inr (join '' AND '' (map (\<lambda>t. ''('' @ t @ '')'') terms), extra)
       \<and> prefix (''(type:('' @ [dquote] @ ''DOCUMENT'' @ [dquote] @ '')) AND (hidden:false)'')
           (join '' AND '' (map (\<lambda>t. ''('' @ t @ '')'') terms))"
proof -
  note sp = solr_query_terms_space [OF assms] and tg = solr_query_terms_tag [OF assms]
  have b: "take 2 terms = base_terms" by (rule solr_query_terms_base [OF assms])
  have q: "build_solr_query root_page tag index_recursively since =
           Inr (join '' AND '' (map (\<lambda>t. ''('' @ t @ '')'') terms), extra)"
    by (simp add: build_solr_query_def assms filter_nonempty_id [OF solr_query_terms_nonempty [OF assms]])
  have p: "prefix (''(type:('' @ [dquote] @ ''DOCUMENT'' @ [dquote] @ '')) AND (hidden:false)'')
           (join '' AND '' (map (\<lambda>t. ''('' @ t @ '')'') terms))"
    using join_base_prefix [OF b [unfolded base_terms_def]] by simp
  show ?thesis
    using sp tg b q p solr_query_terms_unscoped [OF assms] by auto
qed

text \<open>
  Claim C6 at root page \<open>Sandbox.WebHome\<close> with the tag \<open>news\<close> also set: a space
  filter and no tag filter.
\<close>

theorem scope_filters_exclusive_witness:
  "solr_query_terms (Some ''Sandbox.WebHome'') (Some ''news'') True None
     = Inr (base_terms @ [''space:(Sandbox*)''], [])
   \<and> list_ex is_space_term (base_terms @ [''space:(Sandbox*)''])
   \<and> \<not> list_ex is_tag_term (base_terms @ [''space:(Sandbox*)''])"
proof -
  have h: "solr_query_terms (Some ''Sandbox.WebHome'') (Some ''news'') True None
     = Inr (base_terms @ [''space:(Sandbox*)''], [])"
    by code_simp
  show ?thesis using h scope_filters_exclusive [OF h] by simp
qed

text \<open>
  Claim C7. For the space \<open>My Space\<close> the recursive filter is
  \<^verbatim>\<open>space:(+My +Space*)\<close>, with the required word \<open>+My\<close> and the wildcard on the
  last word \<open>+Space*\<close>, and the non-recursive filter is the exact quoted term
  \<^verbatim>\<open>space:"My Space"\<close>. For every space the non-recursive filter quotes the escaped
  space, and escaping doubles each backslash and puts a backslash before each double
  quote.
\<close>

theorem space_filter_shape:
  "build_space_filter ''My Space'' True = Inr ''space:(+My +Space*)''
   \<and> build_space_filter ''My Space'' False = Inr (''space:'' @ [dquote] @ ''My Space'' @ [dquote])
   \<and> build_space_filter space False = Inr (''space:'' @ [dquote] @ esc space @ [dquote])
   \<and> esc s = concat (map (\<lambda>c. if c = backslash then [backslash, backslash]
                                else if c = dquote then [backslash, dquote] else [c]) s)"
proof -
  have 1: "build_space_filter ''My Space'' True = Inr ''space:(+My +Space*)''" by code_simp
  have 2: "build_space_filter ''My Space'' False = Inr (''space:'' @ [dquote] @ ''My Space'' @ [dquote])"
    by code_simp
  have 3: "build_space_filter space False = Inr (''space:'' @ [dquote] @ esc space @ [dquote])"
    by (simp add: build_space_filter_def)
  show ?thesis using 1 2 3 esc_chars by blast
qed

lemma extract_space_cases:
  "extract_space_from_page_reference p =
     (if suffix ''.WebHome'' p then take (length p - 8) p else p)"
  by (simp add: extract_space_from_page_reference_def)

lemma partition_wikiA:
  "partition_chr CHR '':'' ''wikiA:Space.WebHome'' = (''wikiA'', '':'', ''Space.WebHome'')"
  by code_simp

lemma partition_plain:
  "partition_chr CHR '':'' ''Space.WebHome'' = (''Space.WebHome'', [], [])"
  by code_simp

lemma extract_Space: "extract_space_from_page_reference ''Space.WebHome'' = ''Space''"
  by code_simp

lemma space_filter_Space:
  "build_space_filter ''Space'' r =
     Inr (if r then ''space:(Space*)'' else ''space:'' @ [dquote] @ ''Space'' @ [dquote])"
proof (cases r)
  case True
  have "build_space_filter ''Space'' True = Inr ''space:(Space*)''" by code_simp
  with True show ?thesis by simp
next
  case False
  have "build_space_filter ''Space'' False = Inr (''space:'' @ [dquote] @ ''Space'' @ [dquote])"
    by code_simp
  with False show ?thesis by simp
qed

lemma solr_query_terms_wikiA:
  "solr_query_terms (Some ''wikiA:Space.WebHome'') tag r since =
     (case build_modified_filter since of
        Inl e \<Rightarrow> Inl e
      | Inr d \<Rightarrow>
          Inr (base_terms
                 @ [if r then ''space:(Space*)'' else ''space:'' @ [dquote] @ ''Space'' @ [dquote]]
                 @ (if since = None then [] else [d]),
               [(''wiki'', ''wikiA'')]))"
  unfolding solr_query_terms_def Let_def
  by (cases since)
     (simp_all add: partition_wikiA extract_Space space_filter_Space build_modified_filter_def
               del: partition_chr.simps split: sum.splits)

lemma solr_query_terms_plain:
  "solr_query_terms (Some ''Space.WebHome'') tag r since =
     (case build_modified_filter since of
        Inl e \<Rightarrow> Inl e
      | Inr d \<Rightarrow>
          Inr (base_terms
                 @ [if r then ''space:(Space*)'' else ''space:'' @ [dquote] @ ''Space'' @ [dquote]]
                 @ (if since = None then [] else [d]),
               []))"
  unfolding solr_query_terms_def Let_def
  by (cases since)
     (simp_all add: partition_plain extract_Space space_filter_Space build_modified_filter_def
               del: partition_chr.simps split: sum.splits)

text \<open>
  Claim C8. For the root page \<open>wikiA:Space.WebHome\<close> the extra parameters hold the
  wiki \<open>wikiA\<close> and the scope term is the space filter of \<open>Space\<close>; for
  \<open>Space.WebHome\<close> the extra parameters are empty and the scope term is the same,
  whatever the tag, the recursion flag and the time threshold (the query fails only
  where the time filter does). A trailing \<open>.WebHome\<close> is stripped, and every other
  reference, dotted or not, is the space as it stands.
\<close>

theorem root_scope_parsing:
  "solr_query_terms (Some ''wikiA:Space.WebHome'') tag r since =
     (case build_modified_filter since of
        Inl e \<Rightarrow> Inl e
      | Inr d \<Rightarrow>
          Inr (base_terms
                 @ [if r then ''space:(Space*)'' else ''space:'' @ [dquote] @ ''Space'' @ [dquote]]
                 @ (if since = None then [] else [d]),
               [(''wiki'', ''wikiA'')]))
   \<and> solr_query_terms (Some ''Space.WebHome'') tag r since =
     (case build_modified_filter since of
        Inl e \<Rightarrow> Inl e
      | Inr d \<Rightarrow>
          Inr (base_terms
                 @ [if r then ''space:(Space*)'' else ''space:'' @ [dquote] @ ''Space'' @ [dquote]]
                 @ (if since = None then [] else [d]),
               []))
   \<and> build_solr_query (Some ''wikiA:Space.WebHome'') tag True None =
       Inr (''(type:('' @ [dquote] @ ''DOCUMENT'' @ [dquote] @ '')) AND (hidden:false) AND (space:(Space*))'',
            [(''wiki'', ''wikiA'')])
   \<and> build_solr_query (Some ''Space.WebHome'') tag True None =
       Inr (''(type:('' @ [dquote] @ ''DOCUMENT'' @ [dquote] @ '')) AND (hidden:false) AND (space:(Space*))'',
            [])
   \<and> extract_space_from_page_reference (space @ ''.WebHome'') = space
   \<and> extract_space_from_page_reference page_ref =
       (if suffix ''.WebHome'' page_ref then take (length page_ref - 8) page_ref else page_ref)"
proof -
  have q1: "build_solr_query (Some ''wikiA:Space.WebHome'') tag True None =
       Inr (''(type:('' @ [dquote] @ ''DOCUMENT'' @ [dquote] @ '')) AND (hidden:false) AND (space:(Space*))'',
            [(''wiki'', ''wikiA'')])"
    by (simp add: build_solr_query_def solr_query_terms_wikiA build_modified_filter_def base_terms_def)
  have q2: "build_solr_query (Some ''Space.WebHome'') tag True None =
       Inr (''(type:('' @ [dquote] @ ''DOCUMENT'' @ [dquote] @ '')) AND (hidden:false) AND (space:(Space*))'',
            [])"
    by (simp add: build_solr_query_def solr_query_terms_plain build_modified_filter_def base_terms_def)
  have e: "extract_space_from_page_reference (space @ ''.WebHome'') = space"
    by (simp add: extract_space_from_page_reference_def suffix_def)
  show ?thesis
    using solr_query_terms_wikiA solr_query_terms_plain q1 q2 e extract_space_cases by blast
qed

text \<open>
  The query builder returns whenever the time threshold is a date the standard library
  can print and the space filter is not the recursive one (whose only failure is a
  space of blanks).
\<close>

lemma solr_query_terms_returns:
  assumes "since = None \<or> datetime_in_range (the since)"
    and "\<not> truthy_str rp \<or> \<not> r"
  shows "\<exists>res. solr_query_terms rp tag r since = Inr res"
proof (cases since)
  case None
  with assms(2) show ?thesis
    by (auto simp: solr_query_terms_def Let_def build_space_filter_def split: prod.splits)
next
  case (Some ms)
  with assms show ?thesis
    by (auto simp: solr_query_terms_def Let_def build_space_filter_def build_modified_filter_def
             split: prod.splits)
qed

text \<open>
  Claim C7 at a space that holds a double quote and a backslash.
\<close>

theorem space_filter_shape_witness:
  "build_space_filter (''a'' @ [dquote, backslash] @ ''b'') False
     = Inr (''space:'' @ [dquote] @ ''a'' @ [backslash, dquote, backslash, backslash] @ ''b''
            @ [dquote])"
  using space_filter_shape [of "''a'' @ [dquote, backslash] @ ''b''"
                               "''a'' @ [dquote, backslash] @ ''b''"]
  by (simp add: dquote_def backslash_def)

text \<open>
  Claim C8 with the exact filter and the threshold 2024-01-01T00:00:00Z.
\<close>

theorem root_scope_parsing_witness:
  "solr_query_terms (Some ''wikiA:Space.WebHome'') None False (Some 1704067200000) =
     Inr (base_terms @ [''space:'' @ [dquote] @ ''Space'' @ [dquote],
                        ''date:[2024-01-01T00:00:00Z TO *]''],
          [(''wiki'', ''wikiA'')])"
proof -
  have d: "build_modified_filter (Some 1704067200000) = Inr ''date:[2024-01-01T00:00:00Z TO *]''"
    by code_simp
  show ?thesis
    using root_scope_parsing [of None False "Some 1704067200000", THEN conjunct1]
    by (simp add: d)
qed

section \<open>Properties of the HTTP gateway\<close>

lemma request_once_401:
  "session c (prepared_request c m url hs ps) n = Inr r \<Longrightarrow> status_code r = 401 \<Longrightarrow>
   request_once c m url hs ps allow n =
     Inl (Raise XWikiAuthenticationError
            (''Authentication failed calling '' @ req_url (prepared_request c m url hs ps)))"
  by (simp add: request_once_def Let_def)

lemma request_once_rejected:
  "session c (prepared_request c m url hs ps) n = Inr r \<Longrightarrow> rejected allow r \<Longrightarrow>
   request_once c m url hs ps allow n = Inl (unexpected_response m (prepared_request c m url hs ps) r)"
  by (simp add: request_once_def Let_def rejected_def unexpected_response_def)

lemma request_once_accepted:
  "session c (prepared_request c m url hs ps) n = Inr r \<Longrightarrow> status_code r \<noteq> 401 \<Longrightarrow>
   \<not> rejected allow r \<Longrightarrow> request_once c m url hs ps allow n = Inr r"
  by (auto simp add: request_once_def Let_def rejected_def)

lemma retry_loop_calls: "Suc n \<le> snd (retry_loop k n call) \<and> snd (retry_loop k n call) \<le> n + Suc k"
proof (induction k arbitrary: n)
  case 0
  show ?case by simp
next
  case (Suc k)
  show ?case
  proof (cases "call n")
    case (Inr v)
    then show ?thesis by simp
  next
    case (Inl e)
    show ?thesis
    proof (cases "exc_kind e = XWikiAuthenticationError")
      case True
      with Inl show ?thesis by simp
    next
      case False
      with Inl Suc [of "Suc n"] show ?thesis by simp
    qed
  qed
qed

lemma retry_3:
  "retry_builder 3 call =
     (case call 0 of
        Inr v \<Rightarrow> (Inr v, 1)
      | Inl e \<Rightarrow>
          if exc_kind e = XWikiAuthenticationError then (Inl e, 1)
          else (case call 1 of
                  Inr v \<Rightarrow> (Inr v, 2)
                | Inl e \<Rightarrow>
                    if exc_kind e = XWikiAuthenticationError then (Inl e, 2)
                    else (call 2, 3)))"
  by (simp add: retry_builder_def numeral_2_eq_2 numeral_3_eq_3 split: sum.splits)

text \<open>
  Claim C3, with the retry wrapper modelled from the spec. A 401 response ends the
  request with an authentication error at once: after \<open>k\<close> rejected responses
  (\<open>k\<close> below 3) a 401 gives the error with \<open>k + 1\<close> requests sent, so a first
  response of 401 gives it with one request and no retry. Three rejected responses in
  a row give the unexpected-response error of the third, with three requests sent. A
  response that is accepted after \<open>k\<close> rejected ones is returned with \<open>k + 1\<close>
  requests sent. Never fewer than one and never more than three requests are sent.
\<close>

theorem request_retry_policy:
  fixes c m url hs ps allow
  shows
  "(\<forall>k r. k < 3 \<and> (\<forall>n<k. \<exists>r'. session c (prepared_request c m url hs ps) n = Inr r' \<and> rejected allow r')
        \<and> session c (prepared_request c m url hs ps) k = Inr r \<and> status_code r = 401 \<longrightarrow>
        request c m url hs ps allow =
          (Inl (Raise XWikiAuthenticationError
                  (''Authentication failed calling '' @ req_url (prepared_request c m url hs ps))),
           Suc k))
   \<and> (\<forall>r0 r1 r2. session c (prepared_request c m url hs ps) 0 = Inr r0 \<and> rejected allow r0
        \<and> session c (prepared_request c m url hs ps) 1 = Inr r1 \<and> rejected allow r1
        \<and> session c (prepared_request c m url hs ps) 2 = Inr r2 \<and> rejected allow r2 \<longrightarrow>
        request c m url hs ps allow =
          (Inl (unexpected_response m (prepared_request c m url hs ps) r2), 3))
   \<and> (\<forall>k r. k < 3 \<and> (\<forall>n<k. \<exists>r'. session c (prepared_request c m url hs ps) n = Inr r' \<and> rejected allow r')
        \<and> session c (prepared_request c m url hs ps) k = Inr r \<and> status_code r \<noteq> 401
        \<and> \<not> rejected allow r \<longrightarrow>
        request c m url hs ps allow = (Inr r, Suc k))
   \<and> 1 \<le> snd (request c m url hs ps allow) \<and> snd (request c m url hs ps allow) \<le> 3"
proof -
  let ?rq = "prepared_request c m url hs ps"
  let ?call = "request_once c m url hs ps allow"
  have rej: "\<And>n r. session c ?rq n = Inr r \<Longrightarrow> rejected allow r \<Longrightarrow>
      ?call n = Inl (unexpected_response m ?rq r)
      \<and> exc_kind (unexpected_response m ?rq r) \<noteq> XWikiAuthenticationError"
    by (simp add: request_once_rejected) (simp add: unexpected_response_def)
  have auth: "\<And>n r. session c ?rq n = Inr r \<Longrightarrow> status_code r = 401 \<Longrightarrow>
      ?call n = Inl (Raise XWikiAuthenticationError (''Authentication failed calling '' @ req_url ?rq))"
    by (rule request_once_401)
  have ok: "\<And>n r. session c ?rq n = Inr r \<Longrightarrow> status_code r \<noteq> 401 \<Longrightarrow> \<not> rejected allow r \<Longrightarrow>
      ?call n = Inr r"
    by (rule request_once_accepted)
  have less3: "\<And>k::nat. k < 3 \<Longrightarrow> k = 0 \<or> k = 1 \<or> k = 2" by arith
  have A: "\<forall>k r. k < 3 \<and> (\<forall>n<k. \<exists>r'. session c ?rq n = Inr r' \<and> rejected allow r')
        \<and> session c ?rq k = Inr r \<and> status_code r = 401 \<longrightarrow>
        request c m url hs ps allow =
          (Inl (Raise XWikiAuthenticationError (''Authentication failed calling '' @ req_url ?rq)), Suc k)"
  proof (intro allI impI, elim conjE)
    fix k r
    assume k: "k < 3" and before: "\<forall>n<k. \<exists>r'. session c ?rq n = Inr r' \<and> rejected allow r'"
      and at: "session c ?rq k = Inr r" "status_code r = 401"
    from less3 [OF k] show "request c m url hs ps allow =
          (Inl (Raise XWikiAuthenticationError (''Authentication failed calling '' @ req_url ?rq)), Suc k)"
    proof (elim disjE)
      assume "k = 0"
      with auth [OF at [unfolded \<open>k = 0\<close>]] \<open>k = 0\<close> show ?thesis
        by (simp add: request_def retry_3)
    next
      assume k1: "k = 1"
      with before [rule_format, of 0] obtain r0
        where "session c ?rq 0 = Inr r0" "rejected allow r0" by auto
      from rej [OF this] auth [OF at [unfolded k1]] k1 show ?thesis
        by (simp add: request_def retry_3)
    next
      assume k2: "k = 2"
      with before [rule_format, of 0] obtain r0
        where r0: "session c ?rq 0 = Inr r0" "rejected allow r0" by auto
      from k2 before [rule_format, of 1] obtain r1
        where r1: "session c ?rq 1 = Inr r1" "rejected allow r1" by auto
      from rej [OF r0] rej [OF r1] auth [OF at [unfolded k2]] k2 show ?thesis
        by (simp add: request_def retry_3)
    qed
  qed
  have B: "\<forall>r0 r1 r2. session c ?rq 0 = Inr r0 \<and> rejected allow r0
        \<and> session c ?rq 1 = Inr r1 \<and> rejected allow r1
        \<and> session c ?rq 2 = Inr r2 \<and> rejected allow r2 \<longrightarrow>
        request c m url hs ps allow = (Inl (unexpected_response m ?rq r2), 3)"
  proof (intro allI impI, elim conjE)
    fix r0 r1 r2
    assume r0: "session c ?rq 0 = Inr r0" "rejected allow r0"
      and r1: "session c ?rq 1 = Inr r1" "rejected allow r1"
      and r2: "session c ?rq 2 = Inr r2" "rejected allow r2"
    from rej [OF r0] rej [OF r1] rej [OF r2]
    show "request c m url hs ps allow = (Inl (unexpected_response m ?rq r2), 3)"
      by (simp add: request_def retry_3)
  qed
  have C: "\<forall>k r. k < 3 \<and> (\<forall>n<k. \<exists>r'. session c ?rq n = Inr r' \<and> rejected allow r')
        \<and> session c ?rq k = Inr r \<and> status_code r \<noteq> 401 \<and> \<not> rejected allow r \<longrightarrow>
        request c m url hs ps allow = (Inr r, Suc k)"
  proof (intro allI impI, elim conjE)
    fix k r
    assume k: "k < 3" and before: "\<forall>n<k. \<exists>r'. session c ?rq n = Inr r' \<and> rejected allow r'"
      and at: "session c ?rq k = Inr r" "status_code r \<noteq> 401" "\<not> rejected allow r"
    from less3 [OF k] show "request c m url hs ps allow = (Inr r, Suc k)"
    proof (elim disjE)
      assume "k = 0"
      with ok [OF at(1) [unfolded \<open>k = 0\<close>] at(2,3)] \<open>k = 0\<close> show ?thesis
        by (simp add: request_def retry_3)
    next
      assume k1: "k = 1"
      with before [rule_format, of 0] obtain r0
        where "session c ?rq 0 = Inr r0" "rejected allow r0" by auto
      from rej [OF this] ok [OF at(1) [unfolded k1] at(2,3)] k1 show ?thesis
        by (simp add: request_def retry_3)
    next
      assume k2: "k = 2"
      with before [rule_format, of 0] obtain r0
        where r0: "session c ?rq 0 = Inr r0" "rejected allow r0" by auto
      from k2 before [rule_format, of 1] obtain r1
        where r1: "session c ?rq 1 = Inr r1" "rejected allow r1" by auto
      from rej [OF r0] rej [OF r1] ok [OF at(1) [unfolded k2] at(2,3)] k2 show ?thesis
        by (simp add: request_def retry_3)
    qed
  qed
  have D: "1 \<le> snd (request c m url hs ps allow) \<and> snd (request c m url hs ps allow) \<le> 3"
    using retry_loop_calls [of 0 2 ?call] by (simp add: request_def retry_builder_def numeral_2_eq_2)
  from A B C D show ?thesis by blast
qed

text \<open>
  Claim C3 at a server that always answers 401, at one that always answers 503, and
  at one that answers 503 once and 200 from then on.
\<close>

theorem request_retry_policy_witness:
  "request (ex_client (always 401) []) ''GET'' ''rest/wikis/query'' [] [] []
     = (Inl (Raise XWikiAuthenticationError
               ''Authentication failed calling https://wiki.example/rest/wikis/query''), 1)
   \<and> request (ex_client (always 503) []) ''GET'' ''rest/wikis/query'' [] [] []
     = (Inl (Raise XWikiUnexpectedResponse
               ''Unexpected status code 503 for GET https://wiki.example/rest/wikis/query. Body: body''),
        3)
   \<and> snd (request (ex_client flaky []) ''GET'' ''rest/wikis/query''
             [] [] []) = 2"
proof -
  let ?r = "\<lambda>st. \<lparr>status_code = st, body_text = ''body'',
                   body_json = Some (JObj [(''searchResults'', JArr [])]), content_bytes = []\<rparr>"
  let ?flaky = "ex_client flaky []"
  have u: "req_url (prepared_request (ex_client st []) ''GET'' ''rest/wikis/query'' [] [])
             = ''https://wiki.example/rest/wikis/query''" for st
    by (simp add: prepared_request_def ex_client_def always_def lstrip_slash_def)
  have a: "session (ex_client (always 401) [])
             (prepared_request (ex_client (always 401) []) ''GET'' ''rest/wikis/query'' [] []) 0
           = Inr (?r 401)"
    by (simp add: ex_client_def always_def flaky_def)
  have b: "session (ex_client (always 503) [])
             (prepared_request (ex_client (always 503) []) ''GET'' ''rest/wikis/query'' [] []) n
           = Inr (?r 503)" for n
    by (simp add: ex_client_def always_def flaky_def)
  have f0: "\<forall>n<1. \<exists>r'. session ?flaky (prepared_request ?flaky ''GET'' ''rest/wikis/query'' [] []) n
              = Inr r' \<and> rejected [] r'"
    by (simp add: ex_client_def always_def flaky_def rejected_def)
  have f1: "session ?flaky (prepared_request ?flaky ''GET'' ''rest/wikis/query'' [] []) 1
              = Inr (?r 200)"
    by (simp add: ex_client_def always_def flaky_def)
  have rj: "rejected [] (?r 503)" by (simp add: rejected_def)
  have ok: "\<not> rejected [] (?r 200)" by (simp add: rejected_def)
  have sh: "show_int 503 = ''503''" by code_simp
  have 1: "request (ex_client (always 401) []) ''GET'' ''rest/wikis/query'' [] [] []
     = (Inl (Raise XWikiAuthenticationError
               ''Authentication failed calling https://wiki.example/rest/wikis/query''), 1)"
    using request_retry_policy [of "ex_client (always 401) []" "''GET''" "''rest/wikis/query''" "[]" "[]" "[]",
        THEN conjunct1, rule_format, of 0 "?r 401"] a u
    by simp
  have 2: "request (ex_client (always 503) []) ''GET'' ''rest/wikis/query'' [] [] []
         = (Inl (unexpected_response ''GET''
                   (prepared_request (ex_client (always 503) []) ''GET'' ''rest/wikis/query'' [] [])
                   (?r 503)), 3)"
    using request_retry_policy [of "ex_client (always 503) []" "''GET''" "''rest/wikis/query''" "[]" "[]" "[]",
        THEN conjunct2, THEN conjunct1, rule_format, of "?r 503" "?r 503" "?r 503"] b rj
    by simp
  have 3: "request ?flaky ''GET'' ''rest/wikis/query'' [] [] [] = (Inr (?r 200), 2)"
    using request_retry_policy [of ?flaky "''GET''" "''rest/wikis/query''" "[]" "[]" "[]",
        THEN conjunct2, THEN conjunct2, THEN conjunct1, rule_format, of 1 "?r 200"] f0 f1 ok
    by simp
  show ?thesis using 1 2 3 by (simp add: unexpected_response_def u sh)
qed

section \<open>Properties of the search gateway\<close>

lemma load_page_data_translation:
  assumes "dict_get d ''language'' \<noteq> JNull" "dict_get d ''language'' \<noteq> JStr []"
    "dict_get d ''language'' \<noteq> JStr ''null''"
  shows "load_page_data c (JObj d) = Inr None"
  using assms by (simp add: load_page_data_def language_kept_def)

lemma load_pages_skip:
  "load_page_data c doc = Inr None \<Longrightarrow> load_pages c (doc # rest) = load_pages c rest"
  by (simp split: sum.splits)

lemma load_pages_keep:
  "load_page_data c doc = Inr (Some p) \<Longrightarrow> load_pages c rest = Inr ps \<Longrightarrow>
     load_pages c (doc # rest) = Inr (p # ps)"
  by simp

lemma dict_get_without_language:
  "k \<noteq> ''language'' \<Longrightarrow> dict_get (without_language d) k = dict_get d k"
  by (induction d) (auto simp: dict_get_def without_language_def)

lemma dict_get_language_without: "dict_get (without_language d) ''language'' = JNull"
  by (induction d) (auto simp: dict_get_def without_language_def)

lemma links_of_without_language: "links_of (without_language d) = links_of d"
  by (simp add: links_of_def dict_get_without_language)

lemma load_page_data_marker:
  assumes "dict_get d ''language'' = JNull \<or> dict_get d ''language'' = JStr []
           \<or> dict_get d ''language'' = JStr ''null''"
  shows "load_page_data c (JObj d) = load_page_data c (JObj (without_language d))"
proof -
  have k: "language_kept (dict_get d ''language'')"
    using assms by (simp only: language_kept_def)
  have k': "language_kept (dict_get (without_language d) ''language'')"
    by (simp add: dict_get_language_without language_kept_def)
  show ?thesis
    unfolding load_page_data_def Let_def
    by (simp only: json.case k k' not_True_eq_False if_False links_of_without_language)
qed

lemma load_page_data_kept:
  assumes "dict_get d ''language'' = JNull \<or> dict_get d ''language'' = JStr []
           \<or> dict_get d ''language'' = JStr ''null''"
    and "find_page_link c (links_of d) = Some url" "url \<noteq> []"
    and "fetch_page_data c url = Inr (JObj pd)" "pd \<noteq> []"
    and "get_page_html c (dict_get pd ''xwikiAbsoluteUrl'') (dict_get pd ''fullName'') = Inr html"
    and "list_attachments c (dict_get pd ''attachments'') = Inr atts"
  shows "load_page_data c (JObj d) =
           Inr (Some \<lparr>page_id = dict_get pd ''id'', full_name = dict_get pd ''fullName'',
                      page_url = dict_get pd ''xwikiAbsoluteUrl'',
                      modified_ms = dict_get pd ''modified'', content = html,
                      attachments = atts\<rparr>)"
proof -
  have k: "language_kept (dict_get d ''language'')"
    using assms(1) by (simp only: language_kept_def)
  show ?thesis
    unfolding load_page_data_def Let_def
    apply (simp only: json.case k not_True_eq_False if_False assms(2) option.sel)
    apply (simp only: assms(2-7) option.simps simp_thms if_False sum.case truthy.simps json.case)
    done
qed

text \<open>
  Claim C4 as stated fails: the language marker \<open>null\<close>, a string of four characters
  and so not empty, does not drop the hit; with a page link and a page detail record
  the hit becomes a page.
\<close>

theorem translation_dedup_counterexample:
  "dict_get [(''language'', JStr ''null'')] ''language'' = JStr ''null''
   \<and> ''null'' \<noteq> []
   \<and> load_page_data (ex_client (always 200) []) (ex_hit (JStr ''null'') ''rest/Main'')
       = Inr (Some (ex_page ''Main.WebHome'' (Some 1704067200000)))"
  by code_simp

text \<open>
  Claim C4, as amended. A raw hit whose language marker is non-empty (neither absent
  nor the empty string) and is not the string \<open>null\<close> gives no page record and
  contributes nothing to the pages of the batch. A hit whose marker is absent, empty
  or the string \<open>null\<close> is kept: \<^verbatim>\<open>_load_page_data\<close> treats it as it treats the same
  hit without a language marker, and whenever its page link, its detail record, the
  page content and the attachment list are obtained, the result is the page record
  built from the detail record, which is then among the pages of the batch.
\<close>

theorem translation_dedup:
  "(dict_get d ''language'' \<noteq> JNull \<and> dict_get d ''language'' \<noteq> JStr []
      \<and> dict_get d ''language'' \<noteq> JStr ''null'' \<longrightarrow>
      load_page_data c (JObj d) = Inr None
      \<and> load_pages c (JObj d # rest) = load_pages c rest)
   \<and> (dict_get d ''language'' = JNull \<or> dict_get d ''language'' = JStr []
        \<or> dict_get d ''language'' = JStr ''null'' \<longrightarrow>
      load_page_data c (JObj d) = load_page_data c (JObj (without_language d))
      \<and> (find_page_link c (links_of d) = Some url \<and> url \<noteq> []
          \<and> fetch_page_data c url = Inr (JObj pd) \<and> pd \<noteq> []
          \<and> get_page_html c (dict_get pd ''xwikiAbsoluteUrl'') (dict_get pd ''fullName'')
              = Inr html
          \<and> list_attachments c (dict_get pd ''attachments'') = Inr atts \<longrightarrow>
          load_page_data c (JObj d) =
            Inr (Some \<lparr>page_id = dict_get pd ''id'', full_name = dict_get pd ''fullName'',
                       page_url = dict_get pd ''xwikiAbsoluteUrl'',
                       modified_ms = dict_get pd ''modified'', content = html,
                       attachments = atts\<rparr>)
          \<and> (\<forall>ps. load_pages c rest = Inr ps \<longrightarrow>
                 load_pages c (JObj d # rest) =
                   Inr (\<lparr>page_id = dict_get pd ''id'', full_name = dict_get pd ''fullName'',
                         page_url = dict_get pd ''xwikiAbsoluteUrl'',
                         modified_ms = dict_get pd ''modified'', content = html,
                         attachments = atts\<rparr> # ps))))"
proof -
  have 1: "load_page_data c (JObj d) = Inr None \<and> load_pages c (JObj d # rest) = load_pages c rest"
    if "dict_get d ''language'' \<noteq> JNull" "dict_get d ''language'' \<noteq> JStr []"
       "dict_get d ''language'' \<noteq> JStr ''null''"
    using load_page_data_translation [OF that]
      load_pages_skip [OF load_page_data_translation [OF that]] by simp
  have 2: "load_page_data c (JObj d) = load_page_data c (JObj (without_language d))"
    if "dict_get d ''language'' = JNull \<or> dict_get d ''language'' = JStr []
        \<or> dict_get d ''language'' = JStr ''null''"
    using that by (rule load_page_data_marker)
  have 3: "load_page_data c (JObj d) =
            Inr (Some \<lparr>page_id = dict_get pd ''id'', full_name = dict_get pd ''fullName'',
                       page_url = dict_get pd ''xwikiAbsoluteUrl'',
                       modified_ms = dict_get pd ''modified'', content = html,
                       attachments = atts\<rparr>)"
    if "dict_get d ''language'' = JNull \<or> dict_get d ''language'' = JStr []
        \<or> dict_get d ''language'' = JStr ''null''"
      "find_page_link c (links_of d) = Some url" "url \<noteq> []"
      "fetch_page_data c url = Inr (JObj pd)" "pd \<noteq> []"
      "get_page_html c (dict_get pd ''xwikiAbsoluteUrl'') (dict_get pd ''fullName'') = Inr html"
      "list_attachments c (dict_get pd ''attachments'') = Inr atts"
    using that by (rule load_page_data_kept)
  have 4: "load_pages c (JObj d # rest) =
             Inr (\<lparr>page_id = dict_get pd ''id'', full_name = dict_get pd ''fullName'',
                   page_url = dict_get pd ''xwikiAbsoluteUrl'',
                   modified_ms = dict_get pd ''modified'', content = html,
                   attachments = atts\<rparr> # ps)"
    if "dict_get d ''language'' = JNull \<or> dict_get d ''language'' = JStr []
        \<or> dict_get d ''language'' = JStr ''null''"
      "find_page_link c (links_of d) = Some url" "url \<noteq> []"
      "fetch_page_data c url = Inr (JObj pd)" "pd \<noteq> []"
      "get_page_html c (dict_get pd ''xwikiAbsoluteUrl'') (dict_get pd ''fullName'') = Inr html"
      "list_attachments c (dict_get pd ''attachments'') = Inr atts"
      "load_pages c rest = Inr ps" for ps
    using load_pages_keep [OF 3 [OF that(1-7)] that(8)] .
  show ?thesis using 1 2 3 4 by blast
qed

text \<open>
  Claim C4 at a French translation, which is dropped, and at the same hit with an
  empty language marker, which becomes the page.
\<close>

theorem translation_dedup_witness:
  "load_page_data (ex_client (always 200) [])
     (JObj [(''language'', JStr ''fr''),
            (''links'', JArr [JObj [(''rel'', JStr ''http://www.xwiki.org/rel/page''),
                                    (''href'', JStr ''rest/Main'')]])]) = Inr None
   \<and> load_pages (ex_client (always 200) [])
       [JObj [(''language'', JStr ''fr''),
              (''links'', JArr [JObj [(''rel'', JStr ''http://www.xwiki.org/rel/page''),
                                      (''href'', JStr ''rest/Main'')]])]] = Inr []
   \<and> load_page_data (ex_client (always 200) [])
       (JObj [(''language'', JStr []),
              (''links'', JArr [JObj [(''rel'', JStr ''http://www.xwiki.org/rel/page''),
                                      (''href'', JStr ''rest/Main'')]])])
       = Inr (Some (ex_page ''Main.WebHome'' (Some 1704067200000)))
   \<and> load_pages (ex_client (always 200) [])
       [JObj [(''language'', JStr []),
              (''links'', JArr [JObj [(''rel'', JStr ''http://www.xwiki.org/rel/page''),
                                      (''href'', JStr ''rest/Main'')]])]]
       = Inr [ex_page ''Main.WebHome'' (Some 1704067200000)]"
proof -
  let ?c = "ex_client (always 200) []"
  let ?links = "(''links'', JArr [JObj [(''rel'', JStr ''http://www.xwiki.org/rel/page''),
                                      (''href'', JStr ''rest/Main'')]])"
  let ?pd = "[(''id'', JStr ''xwiki:Main.WebHome''),
              (''xwikiAbsoluteUrl'', JStr ''https://wiki.example/bin/view/Main.WebHome''),
              (''modified'', JInt 1704067200000),
              (''fullName'', JStr ''Main.WebHome'')]"
  have l: "find_page_link ?c (links_of [(''language'', JStr []), ?links]) = Some ''rest/Main''"
    by code_simp
  have f: "fetch_page_data ?c ''rest/Main'' = Inr (JObj ?pd)"
    by (simp add: ex_client_def always_def flaky_def ex_detail_def)
  have g: "get_page_html ?c (dict_get ?pd ''xwikiAbsoluteUrl'') (dict_get ?pd ''fullName'') = Inr ''text''"
    by (simp add: ex_client_def always_def flaky_def)
  have t: "list_attachments ?c (dict_get ?pd ''attachments'') = Inr []"
    by (simp add: list_attachments_def dict_get_def)
  have m: "\<lparr>page_id = dict_get ?pd ''id'', full_name = dict_get ?pd ''fullName'',
            page_url = dict_get ?pd ''xwikiAbsoluteUrl'',
            modified_ms = dict_get ?pd ''modified'', content = ''text'', attachments = []\<rparr>
           = ex_page ''Main.WebHome'' (Some 1704067200000)"
    by (simp add: dict_get_def ex_page_def)
  have k: "dict_get [(''language'', JStr []), ?links] ''language'' = JStr []"
    by (simp add: dict_get_def)
  have e: "load_pages ?c [] = Inr []" by simp
  have 1: "load_page_data ?c (JObj [(''language'', JStr ''fr''), ?links]) = Inr None
           \<and> load_pages ?c [JObj [(''language'', JStr ''fr''), ?links]] = Inr []"
    using translation_dedup [of "[(''language'', JStr ''fr''), ?links]" ?c "[]", THEN conjunct1]
    by (simp add: dict_get_def)
  note t2 = translation_dedup [of "[(''language'', JStr []), ?links]" ?c "[]" "''rest/Main''" ?pd
                                 "''text''" "[]", THEN conjunct2, rule_format, THEN conjunct2,
                               rule_format]
  have 2: "load_page_data ?c (JObj [(''language'', JStr []), ?links])
           = Inr (Some (ex_page ''Main.WebHome'' (Some 1704067200000)))"
    using t2 [THEN conjunct1] k l f g t unfolding m by blast
  have 3: "load_pages ?c [JObj [(''language'', JStr []), ?links]]
           = Inr [ex_page ''Main.WebHome'' (Some 1704067200000)]"
    using t2 [THEN conjunct2, rule_format, of "[]"] k l f g t e unfolding m by blast
  show ?thesis using 1 2 3 by simp
qed

section \<open>Properties of the attachment pipeline\<close>

lemma populated_error [simp]: "populated (error_result msg) = 1"
  by (simp add: populated_def error_result_def)

lemma process_attachment_populated:
  "populated (fst (process_attachment env c p a allow)) \<le> 1"
  by (simp add: process_attachment_def Let_def split: option.splits sum.splits)
     (simp add: populated_def)

lemma document_path:
  assumes "validate_attachment_filetype env a" and "\<not> prefix ''image/'' (or_empty (mime_type a))"
    and "\<not> oversized env a"
  shows "process_attachment env c p a allow =
     (case download_attachment c a of
        Inl exc \<Rightarrow> (error_result (exc_str exc), [a])
      | Inr raw \<Rightarrow>
          if raw = [] then (error_result ''Attachment content empty'', [a])
          else (case extract_file_text env raw (name a) of
                  Inl exc \<Rightarrow> (error_result (exc_str exc), [a])
                | Inr txt \<Rightarrow>
                    if int (length txt) > XWIKI_ATTACHMENT_CHAR_COUNT_THRESHOLD env
                    then (error_result ''Attachment text too long'', [a])
                    else (\<lparr>res_text = (if txt \<noteq> [] then Some txt else None),
                           res_image_section = None, res_error = None\<rparr>, [a])))"
proof (cases "size_bytes a")
  case None
  with assms show ?thesis by (simp add: process_attachment_def Let_def split: sum.splits)
next
  case (Some n)
  with assms show ?thesis
    by (simp add: process_attachment_def Let_def oversized_def split: sum.splits)
qed

lemma early_exit:
  assumes "\<not> validate_attachment_filetype env a
           \<or> (prefix ''image/'' (or_empty (mime_type a)) \<and> \<not> allow)
           \<or> (\<not> prefix ''image/'' (or_empty (mime_type a)) \<and> oversized env a)"
  shows "\<exists>msg. process_attachment env c p a allow = (error_result msg, [])"
proof (cases "validate_attachment_filetype env a")
  case False
  then show ?thesis by (simp add: process_attachment_def Let_def) blast
next
  case True
  show ?thesis
  proof (cases "prefix ''image/'' (or_empty (mime_type a))")
    case image: True
    with True assms show ?thesis by (simp add: process_attachment_def Let_def) blast
  next
    case other: False
    with True assms have "oversized env a" by simp
    then obtain n where "size_bytes a = Some n" "n \<noteq> 0" "n > XWIKI_ATTACHMENT_SIZE_THRESHOLD env"
      by (auto simp: oversized_def split: option.splits)
    with True other show ?thesis by (simp add: process_attachment_def Let_def) blast
  qed
qed

lemma image_path:
  assumes "validate_attachment_filetype env a" and "prefix ''image/'' (or_empty (mime_type a))"
    and "allow"
  shows "process_attachment env c p a allow =
     (case download_attachment c a of
        Inl exc \<Rightarrow> (error_result (exc_str exc), [a])
      | Inr raw \<Rightarrow>
          if raw = [] then (error_result ''Attachment content empty'', [a])
          else (case make_storage_file_id p a of
                  Inl exc \<Rightarrow> (error_result (exc_str exc), [a])
                | Inr file_id \<Rightarrow>
                    (case store_image_and_create_section env raw file_id (name a)
                            (attachment_download_url c a) (or_empty (mime_type a)) of
                       Inr sec \<Rightarrow>
                         (\<lparr>res_text = None, res_image_section = Some sec, res_error = None\<rparr>, [a])
                     | Inl exc \<Rightarrow> (error_result (exc_str exc), [a]))))"
proof -
  from assms(2) have "or_empty (mime_type a) \<noteq> []" by auto
  with assms show ?thesis by (simp add: process_attachment_def Let_def split: sum.splits)
qed

lemma process_attachment_none:
  "(populated (fst (process_attachment env c p a allow)) = 0) =
   (validate_attachment_filetype env a
    \<and> \<not> prefix ''image/'' (or_empty (mime_type a))
    \<and> \<not> oversized env a
    \<and> (\<exists>raw. download_attachment c a = Inr raw \<and> raw \<noteq> []
          \<and> extract_file_text env raw (name a) = Inr [])
    \<and> 0 \<le> XWIKI_ATTACHMENT_CHAR_COUNT_THRESHOLD env)"
proof (cases "validate_attachment_filetype env a \<and> \<not> prefix ''image/'' (or_empty (mime_type a))
              \<and> \<not> oversized env a")
  case doc: True
  then have eq: "process_attachment env c p a allow =
     (case download_attachment c a of
        Inl exc \<Rightarrow> (error_result (exc_str exc), [a])
      | Inr raw \<Rightarrow>
          if raw = [] then (error_result ''Attachment content empty'', [a])
          else (case extract_file_text env raw (name a) of
                  Inl exc \<Rightarrow> (error_result (exc_str exc), [a])
                | Inr txt \<Rightarrow>
                    if int (length txt) > XWIKI_ATTACHMENT_CHAR_COUNT_THRESHOLD env
                    then (error_result ''Attachment text too long'', [a])
                    else (\<lparr>res_text = (if txt \<noteq> [] then Some txt else None),
                           res_image_section = None, res_error = None\<rparr>, [a])))"
    by (intro document_path) simp_all
  show ?thesis
  proof (cases "download_attachment c a")
    case (Inl exc)
    with eq show ?thesis by simp
  next
    case (Inr raw)
    show ?thesis
    proof (cases "raw = []")
      case True
      with Inr eq show ?thesis by simp
    next
      case nonempty: False
      show ?thesis
      proof (cases "extract_file_text env raw (name a)")
        case (Inl exc)
        with Inr nonempty eq show ?thesis by simp
      next
        case ex: (Inr t)
        show ?thesis
        proof (cases "t = []")
          case True
          with ex Inr nonempty eq doc show ?thesis
            by (simp add: populated_def error_result_def)
        next
          case False
          with ex Inr nonempty eq show ?thesis by (simp add: populated_def error_result_def)
        qed
      qed
    qed
  qed
next
  case False
  show ?thesis
  proof (cases "validate_attachment_filetype env a \<and> prefix ''image/'' (or_empty (mime_type a))
                \<and> allow")
    case True
    then have eq: "process_attachment env c p a allow =
     (case download_attachment c a of
        Inl exc \<Rightarrow> (error_result (exc_str exc), [a])
      | Inr raw \<Rightarrow>
          if raw = [] then (error_result ''Attachment content empty'', [a])
          else (case make_storage_file_id p a of
                  Inl exc \<Rightarrow> (error_result (exc_str exc), [a])
                | Inr file_id \<Rightarrow>
                    (case store_image_and_create_section env raw file_id (name a)
                            (attachment_download_url c a) (or_empty (mime_type a)) of
                       Inr sec \<Rightarrow>
                         (\<lparr>res_text = None, res_image_section = Some sec, res_error = None\<rparr>, [a])
                     | Inl exc \<Rightarrow> (error_result (exc_str exc), [a]))))"
      by (intro image_path) simp_all
    have "populated (fst (process_attachment env c p a allow)) = 1"
      unfolding eq by (simp add: populated_def error_result_def split: sum.splits)
    with True show ?thesis by simp
  next
    case notimage: False
    with False have "\<not> validate_attachment_filetype env a
           \<or> (prefix ''image/'' (or_empty (mime_type a)) \<and> \<not> allow)
           \<or> (\<not> prefix ''image/'' (or_empty (mime_type a)) \<and> oversized env a)"
      by blast
    from early_exit [OF this] obtain msg
      where "process_attachment env c p a allow = (error_result msg, [])" by blast
    with False show ?thesis by auto
  qed
qed

lemma error_result_outcome [simp]: "is_error_outcome (error_result msg)"
  by (simp add: is_error_outcome_def error_result_def)

lemma image_gate:
  assumes "prefix ''image/'' (or_empty (mime_type a))"
  shows "is_error_outcome (fst (process_attachment env c p a False))
         \<and> snd (process_attachment env c p a False) = []"
  using assms by (simp add: process_attachment_def Let_def)

lemma no_image_unless_allowed:
  "res_image_section (fst (process_attachment env c p a False)) = None"
  by (simp add: process_attachment_def Let_def error_result_def split: option.splits sum.splits)

lemma size_gate:
  assumes "\<not> prefix ''image/'' (or_empty (mime_type a))"
      and "size_bytes a = Some n" and "n > XWIKI_ATTACHMENT_SIZE_THRESHOLD env"
      and "0 \<le> XWIKI_ATTACHMENT_SIZE_THRESHOLD env"
  shows "is_error_outcome (fst (process_attachment env c p a allow))
         \<and> snd (process_attachment env c p a allow) = []"
proof -
  from assms have "oversized env a" by (simp add: oversized_def)
  with assms(1) early_exit [of env a allow c p] obtain msg
    where "process_attachment env c p a allow = (error_result msg, [])" by blast
  then show ?thesis by simp
qed

text \<open>
  Claim C2 as stated fails: for a text file whose extracted text is empty, none of the
  three fields is populated.
\<close>

theorem attachment_outcome_counterexample:
  "process_attachment (ex_env []) (ex_client (always 200) []) (ex_page ''Main.WebHome'' None)
     (ex_attachment ''notes.txt'' (Some ''text/plain'') (Some 5)) False
   = (\<lparr>res_text = None, res_image_section = None, res_error = None\<rparr>,
      [ex_attachment ''notes.txt'' (Some ''text/plain'') (Some 5)])"
  by code_simp

text \<open>
  Claim C2, as amended. The outcome of \<^verbatim>\<open>process_attachment\<close> never has more than
  one field populated, and it has none exactly when a supported attachment that is not
  an image and not oversized is downloaded with content and its extracted text is
  empty (and the character threshold is not negative); in every other case exactly one
  field is populated.
\<close>

theorem attachment_outcome_fields:
  "populated (fst (process_attachment env c p a allow)) \<le> 1
   \<and> (populated (fst (process_attachment env c p a allow)) = 0) =
     (validate_attachment_filetype env a
      \<and> \<not> prefix ''image/'' (or_empty (mime_type a))
      \<and> \<not> oversized env a
      \<and> (\<exists>raw. download_attachment c a = Inr raw \<and> raw \<noteq> []
            \<and> extract_file_text env raw (name a) = Inr [])
      \<and> 0 \<le> XWIKI_ATTACHMENT_CHAR_COUNT_THRESHOLD env)"
  using process_attachment_populated [of env c p a allow]
    process_attachment_none [of env c p a allow]
  by simp

text \<open>
  Claim C2 at a text file with extracted text: exactly one field populated.
\<close>

theorem attachment_outcome_fields_witness:
  "populated (fst (process_attachment (ex_env ''hello'') (ex_client (always 200) [])
       (ex_page ''Main.WebHome'' None)
       (ex_attachment ''notes.txt'' (Some ''text/plain'') (Some 5)) False)) = 1"
proof -
  have d: "download_attachment (ex_client (always 200) [])
             (ex_attachment ''notes.txt'' (Some ''text/plain'') (Some 5)) = Inr ''bytes''"
    by (simp add: ex_client_def always_def flaky_def)
  have x: "extract_file_text (ex_env ''hello'') ''bytes''
             (name (ex_attachment ''notes.txt'' (Some ''text/plain'') (Some 5))) = Inr ''hello''"
    by (simp add: ex_env_def)
  show ?thesis
    using attachment_outcome_fields [of "ex_env ''hello''" "ex_client (always 200) []"
        "ex_page ''Main.WebHome'' None"
        "ex_attachment ''notes.txt'' (Some ''text/plain'') (Some 5)" False]
    by (simp add: d x)
qed

text \<open>
  Claim C5 at an attachment whose media type is \<open>Image/PNG\<close>, with images not
  allowed. The type validation lower-cases the media type and accepts it as an image;
  the gate tests the media type as it is, takes the attachment for a document,
  downloads it and returns the text extracted from it: a download call and a text
  outcome where the claim has an error outcome.
\<close>

theorem mixed_case_image_downloaded:
  "validate_attachment_filetype (ex_env ''hello'')
     (ex_attachment ''scan.png'' (Some ''Image/PNG'') (Some 5))
   \<and> prefix ''image/'' (py_lower (or_empty (mime_type
        (ex_attachment ''scan.png'' (Some ''Image/PNG'') (Some 5)))))
   \<and> process_attachment (ex_env ''hello'') (ex_client (always 200) [])
       (ex_page ''Main.WebHome'' None)
       (ex_attachment ''scan.png'' (Some ''Image/PNG'') (Some 5)) False
     = (\<lparr>res_text = Some ''hello'', res_image_section = None, res_error = None\<rparr>,
        [ex_attachment ''scan.png'' (Some ''Image/PNG'') (Some 5)])"
  by code_simp

section \<open>Properties of the checkpointed run\<close>

lemma truthy_num: "num_val j = Some v \<Longrightarrow> truthy j = (v \<noteq> 0)"
  by (cases j) (auto split: if_splits)

lemma pages_loop_returns:
  "numeric_times pages \<Longrightarrow>
     pages_loop env c allow pages m = Inr (yielded env c allow pages, loop_max pages m)"
proof (induction pages arbitrary: m)
  case Nil
  show ?case by (simp add: yielded_def)
next
  case (Cons p ps)
  from Cons.prems have n: "numeric_times ps"
    and t: "\<not> truthy (modified_ms p) \<or> num_val (modified_ms p) \<noteq> None"
    by (simp_all add: numeric_times_def)
  have y: "yielded env c allow (p # ps) =
             (case process_xwiki_page env c p allow of Inl e \<Rightarrow> [] | Inr d \<Rightarrow> [d])
             @ yielded env c allow ps"
    by (simp add: yielded_def)
  show ?case
  proof (cases "num_val (modified_ms p)")
    case None
    with t have "\<not> truthy (modified_ms p)" by simp
    with None Cons.IH [OF n] show ?thesis
      by (simp add: y split: sum.splits)
  next
    case (Some v)
    have tv: "truthy (modified_ms p) = (v \<noteq> 0)" by (rule truthy_num [OF Some])
    show ?thesis
      using Some Cons.IH [OF n] by (simp add: y tv split: sum.splits)
  qed
qed

lemma pages_loop_raises:
  "\<not> numeric_times pages \<Longrightarrow>
     pages_loop env c allow pages m = Inl (Raise TypeError ''> not supported between instances'')"
proof (induction pages arbitrary: m)
  case Nil
  then show ?case by (simp add: numeric_times_def)
next
  case (Cons p ps)
  show ?case
  proof (cases "\<not> truthy (modified_ms p) \<or> num_val (modified_ms p) \<noteq> None")
    case False
    then show ?thesis by simp
  next
    case True
    with Cons.prems have n: "\<not> numeric_times ps" by (auto simp add: numeric_times_def)
    show ?thesis
    proof (cases "truthy (modified_ms p)")
      case False
      then show ?thesis by (simp add: Cons.IH [OF n] split: sum.splits)
    next
      case t: True
      with True obtain v where "num_val (modified_ms p) = Some v" by auto
      with t show ?thesis by (simp add: Cons.IH [OF n] split: sum.splits)
    qed
  qed
qed

lemma pages_loop_indep:
  "(\<exists>docs. pages_loop env c allow pages m = Inr (docs, mm))
     = (\<exists>docs. pages_loop env' c' allow' pages m = Inr (docs, mm))"
proof (cases "numeric_times pages")
  case True
  then show ?thesis by (simp add: pages_loop_returns)
next
  case False
  then show ?thesis by (simp add: pages_loop_raises)
qed

lemma loop_max_fold:
  "(0 < fold max (modified_values pages) m \<longrightarrow>
      loop_max pages m = fold max (modified_values pages) m)
   \<and> (fold max (modified_values pages) m \<le> 0 \<longrightarrow> loop_max pages m \<le> 0)"
proof (induction pages arbitrary: m)
  case Nil
  show ?case by (simp add: modified_values_def)
next
  case (Cons p ps)
  have mono: "\<And>xs (a::rat) b. a \<le> b \<Longrightarrow> fold max xs a \<le> fold max xs b"
  proof -
    fix xs :: "rat list" and a b :: rat
    show "a \<le> b \<Longrightarrow> fold max xs a \<le> fold max xs b"
      by (induction xs arbitrary: a b) (auto simp: max_def)
  qed
  have zero: "\<And>xs (a::rat). a < 0 \<Longrightarrow> 0 < fold max xs 0 \<Longrightarrow> fold max xs a = fold max xs 0"
  proof -
    fix xs :: "rat list" and a :: rat
    show "a < 0 \<Longrightarrow> 0 < fold max xs 0 \<Longrightarrow> fold max xs a = fold max xs 0"
    proof (induction xs arbitrary: a)
      case Nil then show ?case by simp
    next
      case (Cons x xs)
      show ?case
      proof (cases "0 \<le> x")
        case True
        with Cons.prems show ?thesis by (simp add: max_def)
      next
        case False
        with Cons.prems have "0 < fold max xs 0" by (simp add: max_absorb2)
        moreover from False Cons.prems have "max x a < 0" by simp
        ultimately have "fold max xs (max x a) = fold max xs 0" by (rule Cons.IH [rotated])
        moreover from False have "max x 0 = 0" by simp
        ultimately show ?thesis by simp
      qed
    qed
  qed
  show ?case
  proof (cases "num_val (modified_ms p)")
    case None
    with Cons [of m] show ?thesis by (simp add: modified_values_def)
  next
    case (Some v)
    let ?m' = "if v \<noteq> 0 \<and> v > m then v else m"
    have step: "loop_max (p # ps) m = loop_max ps ?m'"
      using Some by simp
    have vals: "fold max (modified_values (p # ps)) m = fold max (modified_values ps) (max v m)"
      using Some by (simp add: modified_values_def)
    show ?thesis
    proof (cases "v = 0 \<and> m < 0")
      case False
      then have "?m' = max v m" by (auto simp: max_def)
      with step vals Cons [of "max v m"] show ?thesis by simp
    next
      case True
      then have m': "?m' = m" and mx: "max v m = 0" by auto
      show ?thesis
      proof (cases "0 < fold max (modified_values ps) 0")
        case pos: True
        with True have "fold max (modified_values ps) m = fold max (modified_values ps) 0"
          by (simp add: zero)
        with pos step vals m' mx Cons [of m] show ?thesis by simp
      next
        case npos: False
        have "fold max (modified_values ps) m \<le> fold max (modified_values ps) 0"
          using True by (intro mono) simp
        with npos have "fold max (modified_values ps) m \<le> 0" by simp
        with npos step vals m' mx Cons [of m] show ?thesis by simp
      qed
    qed
  qed
qed

lemma loop_max_since:
  "(if loop_max pages (case seeded of None \<Rightarrow> 0 | Some s \<Rightarrow> s) > 0
    then Some (loop_max pages (case seeded of None \<Rightarrow> 0 | Some s \<Rightarrow> s))
    else seeded) = next_since seeded pages"
proof -
  let ?m0 = "case seeded of None \<Rightarrow> 0 | Some s \<Rightarrow> s"
  let ?M = "Max (set (?m0 # modified_values pages))"
  have M: "?M = fold max (modified_values pages) ?m0" by (rule Max.set_eq_fold)
  have n: "next_since seeded pages = (if ?M > 0 then Some ?M else seeded)"
    by (simp only: next_since_def Let_def)
  show ?thesis
    unfolding n M using loop_max_fold [of pages ?m0] by auto
qed

lemma assign_last: "assign (h @ [x]) (length h) f = h @ [f x]"
  by (simp add: assign_def)

text \<open>
  The run, case by case: the seeding raises, the query raises, the loop raises, or
  the run returns. The store it leaves is the incoming one and the copy.
\<close>

lemma load_from_checkpoint_cases:
  assumes "r < length h" and "self_client self = Some c"
  shows "load_from_checkpoint env self start e h r =
     (case seeded_since start (since_ms (h ! r)) of
        Inl x \<Rightarrow> (Inl x, h @ [h ! r])
      | Inr s \<Rightarrow>
          (case batch_of self c s (h ! r) of
             Inl x \<Rightarrow> (Inl x, h @ [(h ! r)\<lparr>since_ms := s\<rparr>])
           | Inr (pages, raw) \<Rightarrow>
               (case pages_loop env c (self_allow_images self) pages
                       (case s of None \<Rightarrow> 0 | Some v \<Rightarrow> v) of
                  Inl x \<Rightarrow> (Inl x, h @ [(h ! r)\<lparr>since_ms := s\<rparr>])
                | Inr (docs, mm) \<Rightarrow>
                    (Inr (docs, length h),
                     h @ [if int raw \<ge> self_batch_size self
                          then \<lparr>has_more = True, since_ms = s,
                                offset = offset (h ! r) + int raw\<rparr>
                          else \<lparr>has_more = False,
                                since_ms = (if mm > 0 then Some mm else s), offset = 0\<rparr>]))))"
proof (cases "since_ms (h ! r) = None \<and> start \<noteq> 0")
  case True
  show ?thesis
  proof (cases "start_ms start")
    case (Inl x)
    with True assms(2) show ?thesis
      by (simp add: load_from_checkpoint_def deepcopy_def seeded_since_def)
  next
    case (Inr ms)
    with True assms(2) show ?thesis
      by (simp add: load_from_checkpoint_def deepcopy_def assign_last seeded_since_def
                    batch_of_def Let_def
               split: sum.splits prod.splits)
  qed
next
  case False
  then have s: "seeded_since start (since_ms (h ! r)) = Inr (since_ms (h ! r))"
    by (auto simp add: seeded_since_def split: option.splits)
  from False assms(2) show ?thesis
    unfolding s
    by (cases "h ! r")
       (auto simp add: load_from_checkpoint_def deepcopy_def assign_last batch_of_def Let_def
             split: sum.splits prod.splits)
qed

lemma load_from_checkpoint_seed_raises:
  assumes "r < length h" and "self_client self = Some c"
    and "seeded_since start (since_ms (h ! r)) = Inl x"
  shows "load_from_checkpoint env self start e h r = (Inl x, h @ [h ! r])"
  by (simp add: load_from_checkpoint_cases [OF assms(1,2)] assms(3))

lemma load_from_checkpoint_raises:
  assumes "r < length h" and "self_client self = Some c"
    and "seeded_since start (since_ms (h ! r)) = Inr seeded"
    and "batch_of self c seeded (h ! r) = Inl x"
  shows "load_from_checkpoint env self start e h r =
           (Inl x, h @ [(h ! r)\<lparr>since_ms := seeded\<rparr>])"
  by (simp add: load_from_checkpoint_cases [OF assms(1,2)] assms(3,4))

lemma load_from_checkpoint_loop_raises:
  assumes "r < length h" and "self_client self = Some c"
    and "seeded_since start (since_ms (h ! r)) = Inr seeded"
    and "batch_of self c seeded (h ! r) = Inr (pages, raw)"
    and "\<not> numeric_times pages"
  shows "load_from_checkpoint env self start e h r =
           (Inl (Raise TypeError ''> not supported between instances''),
            h @ [(h ! r)\<lparr>since_ms := seeded\<rparr>])"
  by (simp add: load_from_checkpoint_cases [OF assms(1,2)] assms(3,4)
                pages_loop_raises [OF assms(5)])

lemma load_from_checkpoint_returns:
  assumes "r < length h" and "self_client self = Some c"
    and "seeded_since start (since_ms (h ! r)) = Inr seeded"
    and "batch_of self c seeded (h ! r) = Inr (pages, raw)"
    and "numeric_times pages"
  shows "load_from_checkpoint env self start e h r =
           (Inr (yielded env c (self_allow_images self) pages, length h),
            h @ [if int raw \<ge> self_batch_size self
                 then \<lparr>has_more = True, since_ms = seeded, offset = offset (h ! r) + int raw\<rparr>
                 else \<lparr>has_more = False, since_ms = next_since seeded pages, offset = 0\<rparr>])"
  by (simp add: load_from_checkpoint_cases [OF assms(1,2)] assms(3,4)
                pages_loop_returns [OF assms(5)] loop_max_since)

text \<open>
  The run returns exactly when the seeding and the query return and the pages have
  numeric times.
\<close>

lemma load_from_checkpoint_returns_iff:
  assumes "r < length h" and "self_client self = Some c"
  shows "(\<exists>docs cp. fst (load_from_checkpoint env self start e h r) = Inr (docs, cp))
     = (\<exists>seeded pages raw. seeded_since start (since_ms (h ! r)) = Inr seeded
          \<and> batch_of self c seeded (h ! r) = Inr (pages, raw) \<and> numeric_times pages)"
proof (cases "seeded_since start (since_ms (h ! r))")
  case (Inl x)
  then show ?thesis by (simp add: load_from_checkpoint_seed_raises [OF assms])
next
  case s: (Inr seeded)
  show ?thesis
  proof (cases "batch_of self c seeded (h ! r)")
    case (Inl x)
    then show ?thesis by (simp add: load_from_checkpoint_raises [OF assms s] s)
  next
    case (Inr b)
    obtain pages raw where b: "b = (pages, raw)" by (cases b)
    show ?thesis
    proof (cases "numeric_times pages")
      case True
      then show ?thesis
        by (simp add: load_from_checkpoint_returns [OF assms s Inr [unfolded b]] s Inr b)
    next
      case False
      then show ?thesis
        by (simp add: load_from_checkpoint_loop_raises [OF assms s Inr [unfolded b]] s Inr b)
    qed
  qed
qed

lemma batch_of_allow [simp]:
  "batch_of (self\<lparr>self_allow_images := b\<rparr>) c seeded cp0 = batch_of self c seeded cp0"
  by (simp add: batch_of_def)

lemma yielded_append:
  "yielded env c allow (ps @ qs) = yielded env c allow ps @ yielded env c allow qs"
  by (simp add: yielded_def)

text \<open>
  Claim C1, as amended. When \<^verbatim>\<open>load_from_checkpoint\<close> returns, that is, when the
  seeding and the batch query return and the \<open>modified_ms\<close> of every page of the batch
  is false or a number, the checkpoint returned has \<open>has_more\<close> equal to whether the
  raw hit count reaches the batch size. After a full batch its offset is the incoming
  offset plus the raw hit count and its \<open>since_ms\<close> is the threshold the query ran
  with: the incoming \<open>since_ms\<close>, or \<^verbatim>\<open>int(start * 1000)\<close>, computed on floats, when
  the incoming one is None and the start time is not zero. After a short batch its
  offset is 0 and its \<open>since_ms\<close> is the maximum of that threshold (None counting as
  0) and the numeric \<open>modified_ms\<close> of all pages of the batch when that maximum is
  positive, and that threshold otherwise.
\<close>

theorem cursor_transition:
  assumes "r < length h" and "self_client self = Some c"
    and "seeded_since start (since_ms (h ! r)) = Inr seeded"
    and "batch_of self c seeded (h ! r) = Inr (pages, raw)"
    and "numeric_times pages"
  shows "(\<exists>docs. fst (load_from_checkpoint env self start e h r) = Inr (docs, length h))
    \<and> has_more (snd (load_from_checkpoint env self start e h r) ! length h)
        = (int raw \<ge> self_batch_size self)
    \<and> (int raw \<ge> self_batch_size self \<longrightarrow>
         offset (snd (load_from_checkpoint env self start e h r) ! length h)
           = offset (h ! r) + int raw
         \<and> since_ms (snd (load_from_checkpoint env self start e h r) ! length h) = seeded)
    \<and> (int raw < self_batch_size self \<longrightarrow>
         offset (snd (load_from_checkpoint env self start e h r) ! length h) = 0
         \<and> since_ms (snd (load_from_checkpoint env self start e h r) ! length h)
           = next_since seeded pages)"
  by (simp add: load_from_checkpoint_returns [OF assms])

text \<open>
  Claim C9. When the seeding and the batch query return and the \<open>modified_ms\<close> of
  every page of the batch is false or a number, \<^verbatim>\<open>load_from_checkpoint\<close> returns:
  the documents yielded are those of the pages whose construction does not raise, in
  the order of the batch, so a page that raises is left out between the pages before
  and after it; and the store it leaves and the reference it returns are the same
  whatever the collaborators and the image flag are, that is, whichever pages raise.
\<close>

theorem page_failure_isolation:
  assumes "r < length h" and "self_client self = Some c"
    and "seeded_since start (since_ms (h ! r)) = Inr seeded"
    and "batch_of self c seeded (h ! r) = Inr (pages, raw)"
    and "numeric_times pages"
  shows "fst (load_from_checkpoint env self start e h r)
           = Inr (yielded env c (self_allow_images self) pages, length h)
    \<and> (\<forall>ps p qs x. pages = ps @ p # qs
           \<and> process_xwiki_page env c p (self_allow_images self) = Inl x \<longrightarrow>
         yielded env c (self_allow_images self) pages
           = yielded env c (self_allow_images self) ps
             @ yielded env c (self_allow_images self) qs)
    \<and> (\<forall>env' allow'.
         snd (load_from_checkpoint env' (self\<lparr>self_allow_images := allow'\<rparr>) start e h r)
           = snd (load_from_checkpoint env self start e h r)
         \<and> (\<exists>docs'. fst (load_from_checkpoint env'
                                 (self\<lparr>self_allow_images := allow'\<rparr>) start e h r)
                         = Inr (docs', length h)))"
proof -
  have 1: "load_from_checkpoint env self start e h r =
           (Inr (yielded env c (self_allow_images self) pages, length h),
            h @ [if int raw \<ge> self_batch_size self
                 then \<lparr>has_more = True, since_ms = seeded, offset = offset (h ! r) + int raw\<rparr>
                 else \<lparr>has_more = False, since_ms = next_since seeded pages, offset = 0\<rparr>])"
    by (rule load_from_checkpoint_returns [OF assms])
  have 2: "load_from_checkpoint env' (self\<lparr>self_allow_images := allow'\<rparr>) start e h r =
           (Inr (yielded env' c allow' pages, length h),
            h @ [if int raw \<ge> self_batch_size self
                 then \<lparr>has_more = True, since_ms = seeded, offset = offset (h ! r) + int raw\<rparr>
                 else \<lparr>has_more = False, since_ms = next_since seeded pages, offset = 0\<rparr>])"
    for env' :: "'x collaborators" and allow'
    using load_from_checkpoint_returns
            [of r h "self\<lparr>self_allow_images := allow'\<rparr>" c start seeded pages raw env' e] assms
    by simp
  have 3: "\<forall>ps p qs x. pages = ps @ p # qs
           \<and> process_xwiki_page env c p (self_allow_images self) = Inl x \<longrightarrow>
         yielded env c (self_allow_images self) pages
           = yielded env c (self_allow_images self) ps
             @ yielded env c (self_allow_images self) qs"
    by (auto simp: yielded_def)
  show ?thesis using 3 by (simp add: 1 2)
qed

text \<open>
  Claim C10. Whether \<^verbatim>\<open>load_from_checkpoint\<close> returns or raises, every object that
  was in the store before the call is unchanged after it, the caller's checkpoint
  among them, and the reference returned is a new one, different from the caller's.
\<close>

theorem checkpoint_not_mutated:
  assumes "r < length h"
  shows "take (length h) (snd (load_from_checkpoint env self start e h r)) = h
    \<and> snd (load_from_checkpoint env self start e h r) ! r = h ! r
    \<and> (\<forall>docs cp. fst (load_from_checkpoint env self start e h r) = Inr (docs, cp) \<longrightarrow>
          cp \<noteq> r \<and> cp = length h
          \<and> cp < length (snd (load_from_checkpoint env self start e h r)))"
proof (cases "self_client self")
  case None
  then show ?thesis by (simp add: load_from_checkpoint_def)
next
  case (Some c)
  show ?thesis
  proof (cases "seeded_since start (since_ms (h ! r))")
    case (Inl x)
    from load_from_checkpoint_seed_raises [OF assms Some Inl, of env e] assms
    show ?thesis by (simp add: nth_append)
  next
    case s: (Inr seeded)
    show ?thesis
    proof (cases "batch_of self c seeded (h ! r)")
      case (Inl x)
      from load_from_checkpoint_raises [OF assms Some s Inl, of env e] assms
      show ?thesis by (simp add: nth_append)
    next
      case (Inr b)
      obtain pages raw where b: "b = (pages, raw)" by (cases b)
      show ?thesis
      proof (cases "numeric_times pages")
        case True
        from load_from_checkpoint_returns [OF assms Some s Inr [unfolded b] True, of env e] assms
        show ?thesis by (simp add: nth_append)
      next
        case False
        from load_from_checkpoint_loop_raises [OF assms Some s Inr [unfolded b] False, of env e]
          assms
        show ?thesis by (simp add: nth_append)
      qed
    qed
  qed
qed

lemma start_ms_whole: "start_ms 10 = Inr 10000"
  by code_simp

lemma start_ms_fractional: "start_ms (3565158400002097 / 2097152) = Inr 1700000000001"
  by code_simp

lemma ex_seed: "seeded_since 0 (since_ms ([ex_checkpoint] ! 0)) = Inr None"
  by (simp add: seeded_since_def ex_checkpoint_def)

lemma ex_seed_fractional:
  "seeded_since (3565158400002097 / 2097152) (since_ms ([ex_checkpoint] ! 0))
     = Inr (Some 1700000000001)"
  by (simp add: seeded_since_def ex_checkpoint_def start_ms_fractional)

lemma ex_batch:
  "batch_of (ex_connector ex_hits) (ex_client (always 200) ex_hits) None ([ex_checkpoint] ! 0)
     = Inr (ex_pages, 5)"
  by code_simp

lemma ex_batch_empty:
  "batch_of (ex_connector []) (ex_client (always 200) []) (Some 1700000000001)
     ([ex_checkpoint] ! 0) = Inr ([], 0)"
  by code_simp

lemma ex_numeric: "numeric_times ex_pages"
  by code_simp

lemma ex_self_client: "self_client (ex_connector hits) = Some (ex_client (always 200) hits)"
  by (simp add: ex_connector_def)

text \<open>
  Claim C1 as stated fails: with an incoming \<open>since_ms\<close> of None, a start time of 10
  seconds and a batch without hits, no page is seen and the batch is short, yet the
  checkpoint returned has \<open>since_ms\<close> 10000, not the incoming None.
\<close>

theorem cursor_transition_counterexample:
  "since_ms ex_checkpoint = None
   \<and> batch_of (ex_connector []) (ex_client (always 200) []) (Some 10000) ex_checkpoint
       = Inr ([], 0)
   \<and> load_from_checkpoint (ex_env []) (ex_connector []) 10 20 [ex_checkpoint] 0
       = (Inr ([], 1), [ex_checkpoint, \<lparr>has_more = False, since_ms = Some 10000, offset = 0\<rparr>])"
  by code_simp

lemma ex_batch_full:
  "batch_of ((ex_connector ex_hits)\<lparr>self_batch_size := 4\<rparr>) (ex_client (always 200) ex_hits) None
     ([ex_checkpoint] ! 0) = Inr (ex_pages, 5)"
  by code_simp

text \<open>
  Claim C1 at the example batch of five raw hits, short for a batch size of 16 and
  full for a batch size of 4, and at an empty batch with the start time
  1700000000.001, whose product with 1000 is the float 1700000000001.
\<close>

theorem cursor_transition_witness:
  "0 < length [ex_checkpoint]
   \<and> self_client (ex_connector ex_hits) = Some (ex_client (always 200) ex_hits)
   \<and> seeded_since 0 (since_ms ([ex_checkpoint] ! 0)) = Inr None
   \<and> batch_of (ex_connector ex_hits) (ex_client (always 200) ex_hits) None ([ex_checkpoint] ! 0)
       = Inr (ex_pages, 5)
   \<and> numeric_times ex_pages
   \<and> has_more (snd (load_from_checkpoint (ex_env []) (ex_connector ex_hits) 0 20 [ex_checkpoint] 0) ! 1)
       = False
   \<and> offset (snd (load_from_checkpoint (ex_env []) (ex_connector ex_hits) 0 20 [ex_checkpoint] 0) ! 1)
       = 0
   \<and> since_ms (snd (load_from_checkpoint (ex_env []) (ex_connector ex_hits) 0 20 [ex_checkpoint] 0) ! 1)
       = Some 1704067290000
   \<and> has_more (snd (load_from_checkpoint (ex_env [])
                       ((ex_connector ex_hits)\<lparr>self_batch_size := 4\<rparr>) 0 20 [ex_checkpoint] 0) ! 1)
       = True
   \<and> offset (snd (load_from_checkpoint (ex_env [])
                     ((ex_connector ex_hits)\<lparr>self_batch_size := 4\<rparr>) 0 20 [ex_checkpoint] 0) ! 1)
       = 5
   \<and> since_ms (snd (load_from_checkpoint (ex_env [])
                       ((ex_connector ex_hits)\<lparr>self_batch_size := 4\<rparr>) 0 20 [ex_checkpoint] 0) ! 1)
       = None
   \<and> since_ms (snd (load_from_checkpoint (ex_env []) (ex_connector [])
                       (3565158400002097 / 2097152) 20 [ex_checkpoint] 0) ! 1)
       = Some 1700000000001"
proof -
  have h1: "0 < length [ex_checkpoint]" by simp
  have b: "self_batch_size (ex_connector hits) = 16" for hits by (simp add: ex_connector_def)
  have c4: "self_client ((ex_connector ex_hits)\<lparr>self_batch_size := 4\<rparr>)
              = Some (ex_client (always 200) ex_hits)"
    by (simp add: ex_connector_def)
  have o: "offset ex_checkpoint = 0" by (simp add: ex_checkpoint_def)
  have n: "next_since None ex_pages = Some 1704067290000"
    by (simp add: next_since_def modified_values_def ex_pages_def ex_page_def ex_broken_page_def)
  have n0: "next_since (Some 1700000000001) [] = Some 1700000000001"
    by (simp add: next_since_def modified_values_def)
  have e: "numeric_times []" by (simp add: numeric_times_def)
  show ?thesis
    using h1 ex_self_client [of ex_hits] ex_seed ex_batch ex_numeric
      cursor_transition [OF h1 ex_self_client ex_seed ex_batch ex_numeric, of "ex_env []" 20]
      cursor_transition [OF h1 c4 ex_seed ex_batch_full ex_numeric, of "ex_env []" 20]
      cursor_transition [OF h1 ex_self_client ex_seed_fractional ex_batch_empty e,
                         of "ex_env []" 20]
    by (simp add: b n n0 o)
qed

text \<open>
  Claim C9 at a batch of four pages, of which the second has no modification time and
  the last neither identifier nor link: two documents, and the same checkpoint as when
  every document is rejected.
\<close>

theorem page_failure_isolation_witness:
  "fst (load_from_checkpoint (ex_env []) (ex_connector ex_hits) 0 20 [ex_checkpoint] 0)
     = Inr ([ex_document ''Main.WebHome'' 1704067200000, ex_document ''News.WebHome'' 1704067260000], 1)
   \<and> process_xwiki_page (ex_env []) (ex_client (always 200) ex_hits)
        (ex_page ''Draft.WebHome'' None) False
       = Inl (Raise TypeError ''unsupported operand type(s) for /'')
   \<and> process_xwiki_page (ex_env []) (ex_client (always 200) ex_hits) ex_broken_page False
       = Inl (Raise ValueError ''validation error'')
   \<and> yielded (ex_env []) (ex_client (always 200) ex_hits) False ex_pages
       = yielded (ex_env []) (ex_client (always 200) ex_hits) False
           [ex_page ''Main.WebHome'' (Some 1704067200000), ex_page ''Draft.WebHome'' None,
            ex_page ''News.WebHome'' (Some 1704067260000)]
         @ yielded (ex_env []) (ex_client (always 200) ex_hits) False []
   \<and> snd (load_from_checkpoint ((ex_env [])\<lparr>document_model := ex_reject\<rparr>)
            ((ex_connector ex_hits)\<lparr>self_allow_images := True\<rparr>) 0 20 [ex_checkpoint] 0)
       = snd (load_from_checkpoint (ex_env []) (ex_connector ex_hits) 0 20 [ex_checkpoint] 0)
   \<and> snd (load_from_checkpoint (ex_env []) (ex_connector ex_hits) 0 20 [ex_checkpoint] 0)
       = [ex_checkpoint, \<lparr>has_more = False, since_ms = Some 1704067290000, offset = 0\<rparr>]"
proof -
  have h1: "0 < length [ex_checkpoint]" by simp
  have sp: "ex_pages = [ex_page ''Main.WebHome'' (Some 1704067200000),
                        ex_page ''Draft.WebHome'' None,
                        ex_page ''News.WebHome'' (Some 1704067260000)]
              @ ex_broken_page # []"
    by (simp add: ex_pages_def)
  have a: "self_allow_images (ex_connector ex_hits) = False" by (simp add: ex_connector_def)
  have y: "yielded (ex_env []) (ex_client (always 200) ex_hits) False ex_pages
     = [ex_document ''Main.WebHome'' 1704067200000, ex_document ''News.WebHome'' 1704067260000]"
    by code_simp
  have f: "process_xwiki_page (ex_env []) (ex_client (always 200) ex_hits)
        (ex_page ''Draft.WebHome'' None) False
       = Inl (Raise TypeError ''unsupported operand type(s) for /'')"
    by code_simp
  have g: "process_xwiki_page (ex_env []) (ex_client (always 200) ex_hits) ex_broken_page False
       = Inl (Raise ValueError ''validation error'')"
    by code_simp
  have s: "snd (load_from_checkpoint (ex_env []) (ex_connector ex_hits) 0 20 [ex_checkpoint] 0)
       = [ex_checkpoint, \<lparr>has_more = False, since_ms = Some 1704067290000, offset = 0\<rparr>]"
    by code_simp
  note t = page_failure_isolation [OF h1 ex_self_client ex_seed ex_batch ex_numeric,
                                   of "ex_env []" 20]
  have d: "fst (load_from_checkpoint (ex_env []) (ex_connector ex_hits) 0 20 [ex_checkpoint] 0)
     = Inr ([ex_document ''Main.WebHome'' 1704067200000, ex_document ''News.WebHome'' 1704067260000], 1)"
    using t [THEN conjunct1] by (simp add: a y)
  have c: "snd (load_from_checkpoint ((ex_env [])\<lparr>document_model := ex_reject\<rparr>)
            ((ex_connector ex_hits)\<lparr>self_allow_images := True\<rparr>) 0 20 [ex_checkpoint] 0)
       = snd (load_from_checkpoint (ex_env []) (ex_connector ex_hits) 0 20 [ex_checkpoint] 0)"
    using t [THEN conjunct2, THEN conjunct2, rule_format,
             of "(ex_env [])\<lparr>document_model := ex_reject\<rparr>" True,
             THEN conjunct1]
    by simp
  have e: "yielded (ex_env []) (ex_client (always 200) ex_hits) False ex_pages
       = yielded (ex_env []) (ex_client (always 200) ex_hits) False
           [ex_page ''Main.WebHome'' (Some 1704067200000), ex_page ''Draft.WebHome'' None,
            ex_page ''News.WebHome'' (Some 1704067260000)]
         @ yielded (ex_env []) (ex_client (always 200) ex_hits) False []"
    using t [THEN conjunct2, THEN conjunct1, rule_format,
             of "[ex_page ''Main.WebHome'' (Some 1704067200000), ex_page ''Draft.WebHome'' None,
                  ex_page ''News.WebHome'' (Some 1704067260000)]" ex_broken_page "[]"] sp g
    by (simp add: a)
  show ?thesis using d f g c e s by simp
qed

text \<open>
  Claim C10 at the example batch: the caller's checkpoint is at reference 0 as before,
  the checkpoint returned is at reference 1.
\<close>

theorem checkpoint_not_mutated_witness:
  "snd (load_from_checkpoint (ex_env []) (ex_connector ex_hits) 0 20 [ex_checkpoint] 0) ! 0
     = ex_checkpoint
   \<and> fst (load_from_checkpoint (ex_env []) (ex_connector ex_hits) 0 20 [ex_checkpoint] 0)
     = Inr ([ex_document ''Main.WebHome'' 1704067200000, ex_document ''News.WebHome'' 1704067260000], 1)
   \<and> (1::nat) \<noteq> 0"
proof -
  have h1: "0 < length [ex_checkpoint]" by simp
  have l: "fst (load_from_checkpoint (ex_env []) (ex_connector ex_hits) 0 20 [ex_checkpoint] 0)
     = Inr ([ex_document ''Main.WebHome'' 1704067200000, ex_document ''News.WebHome'' 1704067260000], 1)"
    by code_simp
  show ?thesis
    using checkpoint_not_mutated [OF h1, of "ex_env []" "ex_connector ex_hits" 0 20] l
    by simp
qed

end
